theory Spec2Isabelle
  imports Complex_Main "HOL-Library.Sublist" "HOL-Library.Log_Nat"
begin

text \<open>
  A model of the in-page telemetry engine of performance-helper: the collector of web
  vitals and long tasks (class \<open>PerformanceCollector\<close>), the render-quality monitor (class
  \<open>RenderMonitor\<close>), the reporter with its delivery queue (class \<open>Reporter\<close>) and the
  element-path serializer (\<open>getElementPath\<close>). Each method of the source is a function on
  an explicit state; each callback that the page invokes is a function of the entries it
  delivers; the page itself (timeline, clock, computed styles, transports) is an argument.
  The properties of the specification follow the definitions.
\<close>

section \<open>Host values: numbers, strings, DOM elements\<close>

text \<open>
  A JavaScript \<open>number\<close> that carries a time or a score is modelled as a rational:
  every finite double is a rational. \<open>NaN\<close> and the infinities are not timing values and
  are left out. Comparisons are exact, and so is \<open>Math.round\<close>, which rounds to the
  nearest integer, a tie going up.
\<close>

type_synonym number = rat

definition Math_round :: "number \<Rightarrow> number" where
  "Math_round x = of_int \<lfloor>x + 1 / 2\<rfloor>"

text \<open>
  A sum, difference, product or quotient of two doubles is the exact result rounded to
  the nearest double (IEEE 754 binary64: 53 significant bits, a tie going to the even
  significand, the spacing never below \<open>pow2 (- 1074)\<close>; a result too large for a double
  is left out with the infinities). \<open>ilog2 a\<close> is the binary exponent of a positive \<open>a\<close>:
  the \<open>k\<close> with \<open>pow2 k \<le> a < pow2 (k + 1)\<close>.
\<close>

definition pow2 :: "int \<Rightarrow> number" where
  "pow2 k = (if k \<ge> 0 then 2 ^ nat k else 1 / 2 ^ nat (- k))"

definition ilog2 :: "number \<Rightarrow> int" where
  "ilog2 a =
     (let k = bitlen (fst (quotient_of a)) - bitlen (snd (quotient_of a))
      in if a < pow2 k then k - 1 else k)"

definition round_half_even :: "number \<Rightarrow> int" where
  "round_half_even x =
     (let n = \<lfloor>x\<rfloor>; r = x - of_int n
      in if r < 1 / 2 then n else if r > 1 / 2 then n + 1 else if even n then n else n + 1)"

definition binary64 :: "number \<Rightarrow> number" where
  "binary64 x =
     (if x = 0 then 0
      else let ulp = pow2 (max (ilog2 \<bar>x\<bar> - 52) (- 1074))
           in of_int (round_half_even (x / ulp)) * ulp)"

text \<open>
  The operations of the collector that do arithmetic take the rounding of results as their
  first argument \<open>fl\<close>, and are named with the suffix \<open>_fl\<close>: with \<open>binary64\<close> they are the
  operations of the engine; with the identity they compute exactly, as one does on paper
  with the decimal numbers of a worked example.
\<close>

text \<open>Strings are ASCII text. \<open>trim\<close> and the pattern \<open>\\s\<close> see the ASCII white space.\<close>

definition isWhiteSpace :: "char \<Rightarrow> bool" where
  "isWhiteSpace c \<longleftrightarrow>
     c = CHR '' '' \<or> c = CHR 0x09 \<or> c = CHR 0x0A \<or> c = CHR 0x0B \<or> c = CHR 0x0C \<or> c = CHR 0x0D"

definition trim :: "string \<Rightarrow> string" where
  "trim s = rev (dropWhile isWhiteSpace (rev (dropWhile isWhiteSpace s)))"

definition str_includes :: "string \<Rightarrow> string \<Rightarrow> bool" where
  "str_includes s part \<longleftrightarrow> sublist part s"

definition toLowerCase :: "string \<Rightarrow> string" where
  "toLowerCase s =
     map (\<lambda>c. if (65::nat) \<le> of_char c \<and> of_char c \<le> (90::nat)
              then char_of (of_char c + (32::nat)) else c) s"

text \<open>\<open>s.split(/\\s+/)\<close>: the pieces between maximal runs of white space.\<close>

function split_ws :: "string \<Rightarrow> string list" where
  "split_ws [] = [[]]"
| "split_ws (c # cs) =
     (if isWhiteSpace c then [] # split_ws (dropWhile isWhiteSpace cs)
      else (case split_ws cs of [] \<Rightarrow> [[c]] | w # ws \<Rightarrow> (c # w) # ws))"
  by pat_completeness auto
termination
  by (relation "measure length") (auto simp: length_dropWhile_le less_Suc_eq_le)

fun join :: "string \<Rightarrow> string list \<Rightarrow> string" where
  "join sep [] = []"
| "join sep [x] = x"
| "join sep (x # y # ys) = x @ sep @ join sep (y # ys)"

fun digits_of :: "nat \<Rightarrow> string" where
  "digits_of n =
     (if n < 10 then [char_of (48 + n)]
      else digits_of (n div 10) @ [char_of (48 + n mod 10)])"

text \<open>
  A DOM element as the engine reads it: tag name, id, class attribute (a string, as the
  type \<open>Element\<close> declares it), and the parent element together with the element's index
  among the parent's children.
\<close>

datatype Element =
  Element (tagName: string) (el_id: string) (className: string)
          (parentElement: "(Element \<times> nat) option")

text \<open>\<open>getElementPath\<close> of \<open>utils/index.ts\<close>: one selector per element, walking up.\<close>

definition selector_of :: "Element \<Rightarrow> string" where
  "selector_of current =
     (let selector = toLowerCase (tagName current);
          selector = (if el_id current \<noteq> [] then selector @ ''#'' @ el_id current else selector);
          selector =
            (if className current \<noteq> [] then
               (let classes = take 3 (filter (\<lambda>cls. cls \<noteq> []) (split_ws (trim (className current))))
                in if length classes > 0 then selector @ ''.'' @ join ''.'' classes else selector)
             else selector);
          selector =
            (if el_id current = [] \<and> (className current = [] \<or> trim (className current) = []) then
               (case parentElement current of
                  Some (parent, index) \<Rightarrow> selector @ '':nth-child('' @ digits_of (index + 1) @ '')''
                | None \<Rightarrow> selector)
             else selector)
      in selector)"

fun walk_up :: "Element \<Rightarrow> string list \<Rightarrow> string list" where
  "walk_up (Element t i c p) path =
     (let path = selector_of (Element t i c p) # path
      in case p of
           None \<Rightarrow> path
         | Some (parent, index) \<Rightarrow> if tagName parent = ''HTML'' then path else walk_up parent path)"

definition getElementPath :: "Element option \<Rightarrow> string" where
  "getElementPath element =
     (case element of None \<Rightarrow> [] | Some e \<Rightarrow> join '' > '' (walk_up e []))"

text \<open>JavaScript truthiness of an optional string, and \<open>a || b\<close> on such values.\<close>

definition truthy :: "string option \<Rightarrow> bool" where
  "truthy v \<longleftrightarrow> (case v of None \<Rightarrow> False | Some s \<Rightarrow> s \<noteq> [])"

definition or_else :: "string option \<Rightarrow> string option \<Rightarrow> string option" where
  "or_else a b = (if truthy a then a else b)"

definition when_truthy :: "string option \<Rightarrow> string option" where
  "when_truthy v = (if truthy v then v else None)"

section \<open>Web-Vitals collector (\<open>PerformanceCollector\<close>)\<close>

subsection \<open>Data\<close>

record LongTaskAttribution =
  taskType :: string
  attr_name :: "string option"
  containerType :: "string option"
  containerName :: "string option"
  containerId :: "string option"
  containerSrc :: "string option"
  scriptURL :: "string option"
  element :: "Element option"
  elementPath :: "string option"
  elementTag :: "string option"
  elementId :: "string option"
  elementClass :: "string option"

record LongTaskInfo =
  lt_startTime :: number
  lt_duration :: number
  attribution :: "LongTaskAttribution list"

record PerformanceMetrics =
  fcp :: "number option"
  lcp :: "number option"
  lcpElement :: "string option"
  fid :: "number option"
  cls :: "number option"
  tbt :: "number option"
  speedIndex :: "number option"
  longTasks :: "LongTaskInfo list option"
  ttfb :: "number option"
  domContentLoaded :: "number option"
  load :: "number option"
  dns :: "number option"
  tcp :: "number option"
  request :: "number option"
  parse :: "number option"

text \<open>The raw observations the host delivers on each channel.\<close>

record PaintEntry =
  pe_name :: string
  pe_startTime :: number

record LCPEntry =
  renderTime :: "number option"
  loadTime :: "number option"
  lcp_startTime :: number
  lcp_element :: "Element option"

record FirstInputEntry =
  processingStart :: number
  fi_startTime :: number

record LayoutShift =
  ls_startTime :: number
  ls_value :: number
  hadRecentInput :: bool

record TaskAttribution =
  ta_entryType :: "string option"
  ta_name :: "string option"
  ta_containerType :: "string option"
  ta_containerName :: "string option"
  ta_containerId :: "string option"
  ta_containerSrc :: "string option"
  ta_scriptURL :: "string option"
  ta_element :: "Element option"

record LongTaskEntry =
  lte_name :: string
  lte_startTime :: number
  lte_duration :: number
  lte_attribution :: "TaskAttribution list option"
  lte_scriptURL :: "string option"

record NavigationTiming =
  nav_startTime :: number
  fetchStart :: number
  domainLookupStart :: number
  domainLookupEnd :: number
  connectStart :: number
  connectEnd :: number
  requestStart :: number
  responseStart :: number
  responseEnd :: number
  domInteractive :: number
  domContentLoadedEventEnd :: number
  loadEventEnd :: number

text \<open>The deprecated \<open>performance.timing\<close>; its attributes are numbers to the code.\<close>

record PerformanceTiming =
  t_navigationStart :: number
  t_domainLookupStart :: number
  t_domainLookupEnd :: number
  t_connectStart :: number
  t_connectEnd :: number
  t_responseStart :: number
  t_responseEnd :: number
  t_domInteractive :: number
  t_domContentLoadedEventEnd :: number
  t_loadEventEnd :: number

text \<open>
  What the page offers when the collector looks: which interfaces exist, which entry
  types \<open>observe\<close> accepts (it throws on the others), and the entries of the performance
  timeline by type (\<open>None\<close>: the call throws).
\<close>

record Host =
  hasPerformanceObserver :: bool
  hasGetEntriesByType :: bool
  supportsType :: "string \<Rightarrow> bool"
  paintEntries :: "PaintEntry list"
  navigationEntries :: "NavigationTiming list option"
  lcpEntries :: "LCPEntry list option"
  timing :: "PerformanceTiming option"

text \<open>
  The collector: its metric set, the five observers (\<open>True\<close> while the observer exists and
  is connected), and the two variables \<open>clsValue\<close>, \<open>clsEntries\<close> that the layout-shift
  callback closes over.
\<close>

record Collector =
  metrics :: PerformanceMetrics
  lcpObserver :: bool
  fidObserver :: bool
  clsObserver :: bool
  fcpObserver :: bool
  longTaskObserver :: bool
  initialized :: bool
  clsValue :: number
  clsEntries :: "LayoutShift list"

definition empty_metrics :: PerformanceMetrics where
  "empty_metrics =
     \<lparr>fcp = None, lcp = None, lcpElement = None, fid = None, cls = None, tbt = None,
      speedIndex = None, longTasks = None, ttfb = None, domContentLoaded = None, load = None,
      dns = None, tcp = None, request = None, parse = None\<rparr>"

definition new_collector :: Collector where
  "new_collector =
     \<lparr>metrics = empty_metrics, lcpObserver = False, fidObserver = False, clsObserver = False,
      fcpObserver = False, longTaskObserver = False, initialized = False,
      clsValue = 0, clsEntries = []\<rparr>"

subsection \<open>Largest contentful paint\<close>

text \<open>
  The callback of \<open>observeLCP\<close>. It reads the last entry of the batch; on an empty batch
  that read throws before anything is written, which leaves the metrics as they are.
\<close>

definition observeLCP_callback :: "LCPEntry list \<Rightarrow> PerformanceMetrics \<Rightarrow> PerformanceMetrics" where
  "observeLCP_callback entries m =
     (if entries = [] then m
      else
        let lastEntry = last entries;
            lcpValue =
              (if renderTime lastEntry \<noteq> None \<and> the (renderTime lastEntry) > 0
                 then the (renderTime lastEntry)
               else if loadTime lastEntry \<noteq> None \<and> the (loadTime lastEntry) > 0
                 then the (loadTime lastEntry)
               else lcp_startTime lastEntry)
        in if lcpValue > 0 then
             let m = m\<lparr>lcp := Some (Math_round lcpValue)\<rparr>
             in if lcp_element lastEntry \<noteq> None then
                  let elementPath = getElementPath (lcp_element lastEntry)
                  in if elementPath \<noteq> [] then m\<lparr>lcpElement := Some elementPath\<rparr> else m
                else m
           else m)"

text \<open>\<open>collectFinalLCP\<close>: the same steps on the last entry of the timeline's history.\<close>

definition collectFinalLCP :: "Host \<Rightarrow> PerformanceMetrics \<Rightarrow> PerformanceMetrics" where
  "collectFinalLCP h m =
     (if \<not> hasGetEntriesByType h then m
      else case lcpEntries h of
        None \<Rightarrow> m
      | Some entries \<Rightarrow>
          if length entries > 0 then
            let lastEntry = last entries;
                lcpValue =
                  (if renderTime lastEntry \<noteq> None \<and> the (renderTime lastEntry) > 0
                     then the (renderTime lastEntry)
                   else if loadTime lastEntry \<noteq> None \<and> the (loadTime lastEntry) > 0
                     then the (loadTime lastEntry)
                   else lcp_startTime lastEntry)
            in if lcpValue > 0 then
                 let m = m\<lparr>lcp := Some (Math_round lcpValue)\<rparr>
                 in if lcp_element lastEntry \<noteq> None then
                      let elementPath = getElementPath (lcp_element lastEntry)
                      in if elementPath \<noteq> [] then m\<lparr>lcpElement := Some elementPath\<rparr> else m
                    else m
               else m
          else m)"

subsection \<open>First contentful paint and first input\<close>

definition fcp_entry :: "PaintEntry \<Rightarrow> PerformanceMetrics \<Rightarrow> PerformanceMetrics" where
  "fcp_entry entry m =
     (if pe_name entry = ''first-contentful-paint''
      then m\<lparr>fcp := Some (Math_round (pe_startTime entry))\<rparr> else m)"

text \<open>
  The observer's callback: every first-contentful-paint entry of the batch is stored, and
  the observer is disconnected once one has been seen.
\<close>

definition observeFCP_callback :: "PaintEntry list \<Rightarrow> Collector \<Rightarrow> Collector" where
  "observeFCP_callback entries c =
     c\<lparr>metrics := foldl (\<lambda>m entry. fcp_entry entry m) (metrics c) entries,
       fcpObserver :=
         (if list_ex (\<lambda>entry. pe_name entry = ''first-contentful-paint'') entries
          then False else fcpObserver c)\<rparr>"

definition observeFCP :: "Host \<Rightarrow> Collector \<Rightarrow> Collector" where
  "observeFCP h c =
     (let c = (if hasGetEntriesByType h
               then c\<lparr>metrics := foldl (\<lambda>m entry. fcp_entry entry m) (metrics c) (paintEntries h)\<rparr>
               else c)
      in if fcp (metrics c) = None \<and> hasPerformanceObserver h
         then c\<lparr>fcpObserver := supportsType h ''paint''\<rparr>
         else c)"

definition fid_entry_fl ::
    "(number \<Rightarrow> number) \<Rightarrow> FirstInputEntry \<Rightarrow> PerformanceMetrics \<Rightarrow> PerformanceMetrics" where
  "fid_entry_fl fl entry m =
     (if processingStart entry \<noteq> 0 \<and> fi_startTime entry \<noteq> 0
      then m\<lparr>fid := Some (Math_round (fl (processingStart entry - fi_startTime entry)))\<rparr> else m)"

definition observeFID_callback_fl ::
    "(number \<Rightarrow> number) \<Rightarrow> FirstInputEntry list \<Rightarrow> Collector \<Rightarrow> Collector" where
  "observeFID_callback_fl fl entries c =
     c\<lparr>metrics := foldl (\<lambda>m entry. fid_entry_fl fl entry m) (metrics c) entries,
       fidObserver :=
         (if list_ex (\<lambda>entry. processingStart entry \<noteq> 0 \<and> fi_startTime entry \<noteq> 0) entries
          then False else fidObserver c)\<rparr>"

definition fid_entry :: "FirstInputEntry \<Rightarrow> PerformanceMetrics \<Rightarrow> PerformanceMetrics" where
  "fid_entry = fid_entry_fl (\<lambda>x. x)"

definition observeFID_callback :: "FirstInputEntry list \<Rightarrow> Collector \<Rightarrow> Collector" where
  "observeFID_callback = observeFID_callback_fl (\<lambda>x. x)"

subsection \<open>Cumulative layout shift\<close>

text \<open>One turn of the loop over the batch: the session variables before and after.\<close>

definition cls_entry_fl ::
    "(number \<Rightarrow> number) \<Rightarrow> LayoutShift \<Rightarrow> number \<times> LayoutShift list \<Rightarrow> number \<times> LayoutShift list" where
  "cls_entry_fl fl layoutShift session =
     (let clsValue = fst session; clsEntries = snd session
      in if \<not> hadRecentInput layoutShift then
           if clsValue \<noteq> 0 \<and>
              length clsEntries > 0 \<and>
              fl (ls_startTime layoutShift - ls_startTime (last clsEntries)) < 1000 \<and>
              fl (ls_startTime layoutShift - ls_startTime (hd clsEntries)) < 5000
           then (fl (clsValue + ls_value layoutShift), clsEntries @ [layoutShift])
           else (ls_value layoutShift, [layoutShift])
         else (clsValue, clsEntries))"

definition observeCLS_callback_fl ::
    "(number \<Rightarrow> number) \<Rightarrow> LayoutShift list \<Rightarrow> Collector \<Rightarrow> Collector" where
  "observeCLS_callback_fl fl entries c =
     (let session = foldl (\<lambda>s entry. cls_entry_fl fl entry s) (clsValue c, clsEntries c) entries
      in c\<lparr>clsValue := fst session, clsEntries := snd session,
            metrics := (metrics c)\<lparr>cls := Some (fl (Math_round (fl (fst session * 1000)) / 1000))\<rparr>\<rparr>)"

definition cls_entry :: "LayoutShift \<Rightarrow> number \<times> LayoutShift list \<Rightarrow> number \<times> LayoutShift list" where
  "cls_entry = cls_entry_fl (\<lambda>x. x)"

definition observeCLS_callback :: "LayoutShift list \<Rightarrow> Collector \<Rightarrow> Collector" where
  "observeCLS_callback = observeCLS_callback_fl (\<lambda>x. x)"

subsection \<open>Long tasks and total blocking time\<close>

definition attributionInfo :: "TaskAttribution \<Rightarrow> LongTaskAttribution" where
  "attributionInfo attr =
     (let info =
            \<lparr>taskType = the (or_else (or_else (ta_entryType attr) (ta_name attr)) (Some ''unknown'')),
             attr_name = ta_name attr,
             containerType = when_truthy (ta_containerType attr),
             containerName = when_truthy (ta_containerName attr),
             containerId = when_truthy (ta_containerId attr),
             containerSrc = when_truthy (ta_containerSrc attr),
             scriptURL = when_truthy (ta_scriptURL attr),
             element = None, elementPath = None, elementTag = None,
             elementId = None, elementClass = None\<rparr>
      in case ta_element attr of
           None \<Rightarrow> info
         | Some el \<Rightarrow>
             info\<lparr>element := Some el,
                  elementPath := Some (getElementPath (Some el)),
                  elementTag := Some (toLowerCase (tagName el)),
                  elementId := (if el_id el \<noteq> [] then Some (el_id el) else None),
                  elementClass := (if className el \<noteq> [] then Some (trim (className el)) else None)\<rparr>)"

definition fallbackInfo :: "LongTaskEntry \<Rightarrow> LongTaskAttribution" where
  "fallbackInfo entry =
     \<lparr>taskType = ''unknown'',
      attr_name = Some (if lte_name entry \<noteq> [] then lte_name entry else ''long-task''),
      containerType = None, containerName = None, containerId = None, containerSrc = None,
      scriptURL = when_truthy (lte_scriptURL entry),
      element = None, elementPath = None, elementTag = None,
      elementId = None, elementClass = None\<rparr>"

definition longTaskInfo :: "LongTaskEntry \<Rightarrow> LongTaskInfo" where
  "longTaskInfo entry =
     \<lparr>lt_startTime = Math_round (lte_startTime entry),
      lt_duration = Math_round (lte_duration entry),
      attribution =
        (case lte_attribution entry of
           Some attrs \<Rightarrow> map attributionInfo attrs
         | None \<Rightarrow> [fallbackInfo entry])\<rparr>"

text \<open>
  One turn of the long-task callback's loop. The push on \<open>longTasks\<close> would throw if the
  list were missing; nothing has been written at that point, so the metrics stay as they
  are (\<open>observeTBT\<close> creates the list before it creates the observer).
\<close>

definition longTask_entry_fl ::
    "(number \<Rightarrow> number) \<Rightarrow> LongTaskEntry \<Rightarrow> PerformanceMetrics \<Rightarrow> PerformanceMetrics" where
  "longTask_entry_fl fl entry m =
     (if lte_duration entry > 50 then
        case longTasks m of
          None \<Rightarrow> m
        | Some tasks \<Rightarrow>
            let m = m\<lparr>longTasks := Some (tasks @ [longTaskInfo entry])\<rparr>;
                blockingTime = Math_round (fl (lte_duration entry - 50))
            in m\<lparr>tbt := Some (fl ((case tbt m of None \<Rightarrow> 0 | Some t \<Rightarrow> t) + blockingTime))\<rparr>
      else m)"

definition observeTBT_callback_fl ::
    "(number \<Rightarrow> number) \<Rightarrow> LongTaskEntry list \<Rightarrow> PerformanceMetrics \<Rightarrow> PerformanceMetrics" where
  "observeTBT_callback_fl fl entries m = foldl (\<lambda>m entry. longTask_entry_fl fl entry m) m entries"

definition updateTBT_fl :: "(number \<Rightarrow> number) \<Rightarrow> PerformanceMetrics \<Rightarrow> PerformanceMetrics" where
  "updateTBT_fl fl m =
     (case longTasks m of
        None \<Rightarrow> m\<lparr>tbt := Some 0\<rparr>
      | Some tasks \<Rightarrow>
          if length tasks = 0 then m\<lparr>tbt := Some 0\<rparr>
          else
            let tbt = foldl (\<lambda>tbt task.
                               if lt_duration task > 50 then fl (tbt + fl (lt_duration task - 50))
                               else tbt)
                            0 tasks
            in m\<lparr>tbt := Some (Math_round tbt)\<rparr>)"

definition observeTBT_fl :: "(number \<Rightarrow> number) \<Rightarrow> Host \<Rightarrow> Collector \<Rightarrow> Collector" where
  "observeTBT_fl fl h c =
     (if \<not> hasPerformanceObserver h then c
      else
        let m = metrics c;
            m = (if longTasks m = None then m\<lparr>longTasks := Some []\<rparr> else m);
            m = m\<lparr>tbt := Some 0\<rparr>
        in if supportsType h ''longtask''
           then c\<lparr>metrics := updateTBT_fl fl m, longTaskObserver := True\<rparr>
           else c\<lparr>metrics := m\<rparr>)"

definition longTask_entry :: "LongTaskEntry \<Rightarrow> PerformanceMetrics \<Rightarrow> PerformanceMetrics" where
  "longTask_entry = longTask_entry_fl (\<lambda>x. x)"

definition observeTBT_callback :: "LongTaskEntry list \<Rightarrow> PerformanceMetrics \<Rightarrow> PerformanceMetrics" where
  "observeTBT_callback = observeTBT_callback_fl (\<lambda>x. x)"

definition updateTBT :: "PerformanceMetrics \<Rightarrow> PerformanceMetrics" where
  "updateTBT = updateTBT_fl (\<lambda>x. x)"

definition observeTBT :: "Host \<Rightarrow> Collector \<Rightarrow> Collector" where
  "observeTBT = observeTBT_fl (\<lambda>x. x)"

subsection \<open>The other observers, navigation timing, and the public operations\<close>

definition observeLCP :: "Host \<Rightarrow> Collector \<Rightarrow> Collector" where
  "observeLCP h c =
     (if \<not> hasPerformanceObserver h then c
      else c\<lparr>lcpObserver := supportsType h ''largest-contentful-paint''\<rparr>)"

definition observeFID :: "Host \<Rightarrow> Collector \<Rightarrow> Collector" where
  "observeFID h c =
     (if \<not> hasPerformanceObserver h then c
      else c\<lparr>fidObserver := supportsType h ''first-input''\<rparr>)"

definition observeCLS :: "Host \<Rightarrow> Collector \<Rightarrow> Collector" where
  "observeCLS h c =
     (if \<not> hasPerformanceObserver h then c
      else c\<lparr>clsValue := 0, clsEntries := [], clsObserver := supportsType h ''layout-shift''\<rparr>)"

definition collectWebVitals_fl :: "(number \<Rightarrow> number) \<Rightarrow> Host \<Rightarrow> Collector \<Rightarrow> Collector" where
  "collectWebVitals_fl fl h c =
     observeTBT_fl fl h (observeCLS h (observeFID h (observeLCP h (observeFCP h c))))"

definition init_fl :: "(number \<Rightarrow> number) \<Rightarrow> Host \<Rightarrow> Collector \<Rightarrow> Collector" where
  "init_fl fl h c = (if initialized c then c else (collectWebVitals_fl fl h c)\<lparr>initialized := True\<rparr>)"

text \<open>
  The fallback on \<open>performance.timing\<close>, taken when the look-up of the navigation entry
  throws: the differences are stored as they are.
\<close>

definition collectNavigationTimingLegacy_fl ::
    "(number \<Rightarrow> number) \<Rightarrow> Host \<Rightarrow> PerformanceMetrics \<Rightarrow> PerformanceMetrics" where
  "collectNavigationTimingLegacy_fl fl h m =
     (case timing h of
        None \<Rightarrow> m
      | Some tm \<Rightarrow>
          m\<lparr>dns := Some (fl (t_domainLookupEnd tm - t_domainLookupStart tm)),
            tcp := Some (fl (t_connectEnd tm - t_connectStart tm)),
            ttfb := Some (fl (t_responseStart tm - t_navigationStart tm)),
            request := Some (fl (t_responseEnd tm - t_responseStart tm)),
            parse := Some (fl (t_domInteractive tm - t_responseEnd tm)),
            domContentLoaded := Some (fl (t_domContentLoadedEventEnd tm - t_navigationStart tm)),
            load := Some (fl (t_loadEventEnd tm - t_navigationStart tm))\<rparr>)"

definition collectNavigationTiming_fl ::
    "(number \<Rightarrow> number) \<Rightarrow> Host \<Rightarrow> PerformanceMetrics \<Rightarrow> PerformanceMetrics" where
  "collectNavigationTiming_fl fl h m =
     (if \<not> hasGetEntriesByType h then m
      else case navigationEntries h of
        None \<Rightarrow> collectNavigationTimingLegacy_fl fl h m
      | Some [] \<Rightarrow> m
      | Some (navigation # rest) \<Rightarrow>
          m\<lparr>dns := Some (Math_round (fl (domainLookupEnd navigation - domainLookupStart navigation))),
            tcp := Some (Math_round (fl (connectEnd navigation - connectStart navigation))),
            ttfb := Some (Math_round (fl (responseStart navigation -
                      (if requestStart navigation \<noteq> 0 then requestStart navigation
                       else fetchStart navigation)))),
            request := Some (Math_round (fl (responseEnd navigation - responseStart navigation))),
            parse := Some (Math_round (fl (domInteractive navigation - responseEnd navigation))),
            domContentLoaded :=
              Some (Math_round (fl (domContentLoadedEventEnd navigation - nav_startTime navigation))),
            load := Some (Math_round (fl (loadEventEnd navigation - nav_startTime navigation)))\<rparr>)"

text \<open>\<open>collect\<close> returns a copy of the metric set and leaves the updated collector.\<close>

definition collect_fl ::
    "(number \<Rightarrow> number) \<Rightarrow> Host \<Rightarrow> Collector \<Rightarrow> PerformanceMetrics \<times> Collector" where
  "collect_fl fl h c =
     (let c = c\<lparr>metrics := collectFinalLCP h (collectNavigationTiming_fl fl h (metrics c))\<rparr>
      in (metrics c, c))"

definition destroy :: "Collector \<Rightarrow> Collector" where
  "destroy c =
     c\<lparr>lcpObserver := False, fidObserver := False, clsObserver := False, fcpObserver := False,
       longTaskObserver := False, initialized := False\<rparr>"

text \<open>
  What can happen to a collector: a call of its three public operations, or the delivery
  of a batch of entries to one of its observers. A disconnected observer delivers nothing.
\<close>

datatype Event =
    Init Host
  | Collect Host
  | Destroy
  | PaintObserved "PaintEntry list"
  | LCPObserved "LCPEntry list"
  | FirstInputObserved "FirstInputEntry list"
  | LayoutShiftObserved "LayoutShift list"
  | LongTaskObserved "LongTaskEntry list"

fun step_fl :: "(number \<Rightarrow> number) \<Rightarrow> Collector \<Rightarrow> Event \<Rightarrow> Collector" where
  "step_fl fl c (Init h) = init_fl fl h c"
| "step_fl fl c (Collect h) = snd (collect_fl fl h c)"
| "step_fl fl c Destroy = destroy c"
| "step_fl fl c (PaintObserved entries) =
     (if fcpObserver c then observeFCP_callback entries c else c)"
| "step_fl fl c (LCPObserved entries) =
     (if lcpObserver c then c\<lparr>metrics := observeLCP_callback entries (metrics c)\<rparr> else c)"
| "step_fl fl c (FirstInputObserved entries) =
     (if fidObserver c then observeFID_callback_fl fl entries c else c)"
| "step_fl fl c (LayoutShiftObserved entries) =
     (if clsObserver c then observeCLS_callback_fl fl entries c else c)"
| "step_fl fl c (LongTaskObserved entries) =
     (if longTaskObserver c then c\<lparr>metrics := observeTBT_callback_fl fl entries (metrics c)\<rparr>
      else c)"

definition run_fl :: "(number \<Rightarrow> number) \<Rightarrow> Collector \<Rightarrow> Event list \<Rightarrow> Collector" where
  "run_fl fl c events = foldl (step_fl fl) c events"

text \<open>The operations in exact arithmetic.\<close>

definition collectWebVitals :: "Host \<Rightarrow> Collector \<Rightarrow> Collector" where
  "collectWebVitals = collectWebVitals_fl (\<lambda>x. x)"

definition init :: "Host \<Rightarrow> Collector \<Rightarrow> Collector" where
  "init = init_fl (\<lambda>x. x)"

definition collectNavigationTimingLegacy :: "Host \<Rightarrow> PerformanceMetrics \<Rightarrow> PerformanceMetrics" where
  "collectNavigationTimingLegacy = collectNavigationTimingLegacy_fl (\<lambda>x. x)"

definition collectNavigationTiming :: "Host \<Rightarrow> PerformanceMetrics \<Rightarrow> PerformanceMetrics" where
  "collectNavigationTiming = collectNavigationTiming_fl (\<lambda>x. x)"

definition collect :: "Host \<Rightarrow> Collector \<Rightarrow> PerformanceMetrics \<times> Collector" where
  "collect = collect_fl (\<lambda>x. x)"

definition step :: "Collector \<Rightarrow> Event \<Rightarrow> Collector" where
  "step = step_fl (\<lambda>x. x)"

definition run :: "Collector \<Rightarrow> Event list \<Rightarrow> Collector" where
  "run = run_fl (\<lambda>x. x)"

section \<open>Render-quality monitor (\<open>RenderMonitor\<close>)\<close>

subsection \<open>Data\<close>

record ReflowInfo =
  rf_timestamp :: number
  rf_duration :: number
  rf_element :: "Element option"
  rf_elementPath :: "string option"
  rf_reason :: string
  rf_droppedFrames :: "int option"
  rf_stackTrace :: string

record RepaintInfo =
  rp_timestamp :: number
  rp_duration :: number
  rp_element :: "Element option"
  rp_elementPath :: "string option"
  rp_reason :: string
  rp_stackTrace :: string

record GPUAccelerationInfo =
  gpu_element :: Element
  gpu_elementPath :: string
  isAccelerated :: bool
  accelerationMethods :: "string list"
  willChange :: bool
  transform :: bool
  opacity :: bool
  filter_used :: bool
  backdropFilter :: bool

text \<open>The properties of a computed style that the classification reads.\<close>

record CSSStyleDeclaration =
  css_willChange :: string
  css_transform :: string
  css_transitionProperty :: string
  css_transitionDuration :: string
  css_opacity :: string
  css_filter :: string
  css_backdropFilter :: string

text \<open>A measure entry of the performance timeline, and a DOM mutation record.\<close>

record MeasureEntry =
  me_name :: string
  me_startTime :: number
  me_duration :: number

datatype MutationType = childList | attributes | characterData

record MutationRecord =
  mr_type :: MutationType
  mr_target :: Element
  mr_attributeName :: "string option"

text \<open>
  The monitor. \<open>suspiciousElements\<close> is the map of the reflow detector, kept in insertion
  order as a JavaScript \<open>Map\<close> keeps it; \<open>lastTime\<close>, \<open>frameCount\<close> and \<open>droppedFrames\<close> are
  the variables of the frame-rate loop.
\<close>

record RenderMonitor =
  reflows :: "ReflowInfo list"
  repaints :: "RepaintInfo list"
  gpuAcceleratedElements :: "GPUAccelerationInfo list"
  isMonitoring :: bool
  suspiciousElements :: "(Element \<times> nat) list"
  lastTime :: number
  frameCount :: nat
  droppedFrames :: int

definition new_monitor :: RenderMonitor where
  "new_monitor =
     \<lparr>reflows = [], repaints = [], gpuAcceleratedElements = [], isMonitoring = False,
      suspiciousElements = [], lastTime = 0, frameCount = 0, droppedFrames = 0\<rparr>"

subsection \<open>Reflow records\<close>

text \<open>
  \<open>getStackTrace\<close>: the trace the engine would capture is the argument \<open>stack\<close>; it is
  skipped once either sequence holds more than 1000 records.
\<close>

definition getStackTrace :: "string \<Rightarrow> RenderMonitor \<Rightarrow> string" where
  "getStackTrace stack mon =
     (if length (reflows mon) > 1000 \<or> length (repaints mon) > 1000 then [] else stack)"

text \<open>The stable sort by descending count of \<open>sort((a, b) => b[1] - a[1])\<close>.\<close>

fun insert_desc :: "'a \<times> nat \<Rightarrow> ('a \<times> nat) list \<Rightarrow> ('a \<times> nat) list" where
  "insert_desc x [] = [x]"
| "insert_desc x (y # ys) = (if snd x \<ge> snd y then x # y # ys else y # insert_desc x ys)"

definition sort_desc :: "('a \<times> nat) list \<Rightarrow> ('a \<times> nat) list" where
  "sort_desc xs = foldr insert_desc xs []"

definition recordPotentialReflow ::
    "number \<Rightarrow> string \<Rightarrow> number \<Rightarrow> int \<Rightarrow> RenderMonitor \<Rightarrow> RenderMonitor" where
  "recordPotentialReflow now stack deltaTime dropped mon =
     (if length (reflows mon) \<ge> 1000 then mon
      else
        let suspicious = take 5 (sort_desc (suspiciousElements mon))
        in foldl (\<lambda>mon (el, count).
                    mon\<lparr>reflows := reflows mon @
                      [\<lparr>rf_timestamp = now, rf_duration = deltaTime, rf_element = Some el,
                        rf_elementPath = Some (getElementPath (Some el)),
                        rf_reason = ''frame_drop'', rf_droppedFrames = Some dropped,
                        rf_stackTrace = getStackTrace stack mon\<rparr>]\<rparr>)
                 mon suspicious)"

definition reflowAttributes :: "string list" where
  "reflowAttributes =
     [''width'', ''height'', ''padding'', ''margin'', ''border'',
      ''display'', ''position'', ''top'', ''left'', ''right'', ''bottom'',
      ''font-size'', ''font-weight'', ''line-height'',
      ''overflow'', ''float'', ''clear'']"

definition isReflowTriggeringAttribute :: "string option \<Rightarrow> bool" where
  "isReflowTriggeringAttribute attrName =
     (case attrName of
        None \<Rightarrow> False
      | Some name \<Rightarrow> name \<noteq> [] \<and> list_ex (\<lambda>attr. str_includes name attr) reflowAttributes)"

definition recordReflowFromMutation ::
    "number \<Rightarrow> string \<Rightarrow> Element \<Rightarrow> string \<Rightarrow> RenderMonitor \<Rightarrow> RenderMonitor" where
  "recordReflowFromMutation now stack el attrName mon =
     mon\<lparr>reflows := reflows mon @
       [\<lparr>rf_timestamp = now, rf_duration = 0, rf_element = Some el,
         rf_elementPath = Some (getElementPath (Some el)),
         rf_reason = ''attribute_change:'' @ attrName, rf_droppedFrames = None,
         rf_stackTrace = getStackTrace stack mon\<rparr>]\<rparr>"

definition recordReflow :: "string \<Rightarrow> MeasureEntry \<Rightarrow> RenderMonitor \<Rightarrow> RenderMonitor" where
  "recordReflow stack entry mon =
     mon\<lparr>reflows := reflows mon @
       [\<lparr>rf_timestamp = me_startTime entry, rf_duration = me_duration entry, rf_element = None,
         rf_elementPath = None, rf_reason = ''measured'', rf_droppedFrames = None,
         rf_stackTrace = getStackTrace stack mon\<rparr>]\<rparr>"

definition recordRepaint :: "string \<Rightarrow> MeasureEntry \<Rightarrow> RenderMonitor \<Rightarrow> RenderMonitor" where
  "recordRepaint stack entry mon =
     mon\<lparr>repaints := repaints mon @
       [\<lparr>rp_timestamp = me_startTime entry, rp_duration = me_duration entry, rp_element = None,
         rp_elementPath = None, rp_reason = ''measured'',
         rp_stackTrace = getStackTrace stack mon\<rparr>]\<rparr>"

text \<open>
  The deferred part of \<open>markReflow\<close>: \<open>found\<close> is the first measure named "reflow" that
  the timeline holds when the timeout runs (\<open>None\<close> if there is none).
\<close>

definition markReflow ::
    "string \<Rightarrow> MeasureEntry option \<Rightarrow> Element option \<Rightarrow> string option \<Rightarrow> RenderMonitor \<Rightarrow> RenderMonitor" where
  "markReflow stack found el reason mon =
     (case found of
        None \<Rightarrow> mon
      | Some m \<Rightarrow>
          mon\<lparr>reflows := reflows mon @
            [\<lparr>rf_timestamp = me_startTime m, rf_duration = me_duration m, rf_element = el,
              rf_elementPath = (if el \<noteq> None then Some (getElementPath el) else None),
              rf_reason = the (or_else reason (Some ''manual'')), rf_droppedFrames = None,
              rf_stackTrace = getStackTrace stack mon\<rparr>]\<rparr>)"

definition markRepaint ::
    "string \<Rightarrow> MeasureEntry option \<Rightarrow> Element option \<Rightarrow> string option \<Rightarrow> RenderMonitor \<Rightarrow> RenderMonitor" where
  "markRepaint stack found el reason mon =
     (case found of
        None \<Rightarrow> mon
      | Some m \<Rightarrow>
          mon\<lparr>repaints := repaints mon @
            [\<lparr>rp_timestamp = me_startTime m, rp_duration = me_duration m, rp_element = el,
              rp_elementPath = (if el \<noteq> None then Some (getElementPath el) else None),
              rp_reason = the (or_else reason (Some ''manual'')),
              rp_stackTrace = getStackTrace stack mon\<rparr>]\<rparr>)"

text \<open>The callback of the frame observer, one measure entry at a time.\<close>

definition frame_entry :: "string \<Rightarrow> MeasureEntry \<Rightarrow> RenderMonitor \<Rightarrow> RenderMonitor" where
  "frame_entry stack entry mon =
     (if str_includes (me_name entry) ''reflow'' then recordReflow stack entry mon
      else if str_includes (me_name entry) ''repaint'' then recordRepaint stack entry mon
      else mon)"

text \<open>\<open>checkFrame\<close> of \<open>monitorFrameRate\<close>: one animation frame.\<close>

definition checkFrame :: "number \<Rightarrow> number \<Rightarrow> string \<Rightarrow> RenderMonitor \<Rightarrow> RenderMonitor" where
  "checkFrame currentTime now stack mon =
     (if \<not> isMonitoring mon then mon
      else
        let mon = mon\<lparr>frameCount := frameCount mon + 1\<rparr>;
            deltaTime = currentTime - lastTime mon;
            mon =
              (if deltaTime > 20 then
                 let mon = mon\<lparr>droppedFrames :=
                             droppedFrames mon + \<lfloor>(deltaTime - 1667 / 100) / (1667 / 100)\<rfloor>\<rparr>
                 in if droppedFrames mon > 2
                    then recordPotentialReflow now stack deltaTime (droppedFrames mon) mon
                    else mon
               else mon\<lparr>droppedFrames := 0\<rparr>)
        in mon\<lparr>lastTime := currentTime\<rparr>)"

text \<open>\<open>Map.get(k) || 0\<close> and \<open>Map.set\<close> on the insertion-ordered map.\<close>

fun map_get :: "('k \<times> nat) list \<Rightarrow> 'k \<Rightarrow> nat" where
  "map_get [] k = 0"
| "map_get ((k', v) # rest) k = (if k' = k then v else map_get rest k)"

fun map_set :: "('k \<times> nat) list \<Rightarrow> 'k \<Rightarrow> nat \<Rightarrow> ('k \<times> nat) list" where
  "map_set [] k v = [(k, v)]"
| "map_set ((k', v') # rest) k v = (if k' = k then (k, v) # rest else (k', v') # map_set rest k v)"

definition map_delete :: "('k \<times> nat) list \<Rightarrow> 'k \<Rightarrow> ('k \<times> nat) list" where
  "map_delete m k = filter (\<lambda>kv. fst kv \<noteq> k) m"

text \<open>The callback of the mutation observer, one mutation record at a time.\<close>

definition mutation_entry :: "number \<Rightarrow> string \<Rightarrow> MutationRecord \<Rightarrow> RenderMonitor \<Rightarrow> RenderMonitor" where
  "mutation_entry now stack mutation mon =
     (if mr_type mutation = childList \<or> mr_type mutation = attributes then
        let target = mr_target mutation;
            count = map_get (suspiciousElements mon) target;
            mon = mon\<lparr>suspiciousElements := map_set (suspiciousElements mon) target (count + 1)\<rparr>
        in if mr_type mutation = attributes then
             let attrName = mr_attributeName mutation
             in if truthy attrName \<and> isReflowTriggeringAttribute attrName
                then recordReflowFromMutation now stack target (the attrName) mon
                else mon
           else mon
      else mon)"

text \<open>
  \<open>start\<close> begins the frame-rate loop with a first clock reading; \<open>stop\<close> ends it at the
  next frame. What can happen to a monitor follows. Each event carries the readings the
  engine takes from the page while it handles it: the clock (\<open>performance.now()\<close>) and the
  stack trace.
\<close>

definition start :: "number \<Rightarrow> RenderMonitor \<Rightarrow> RenderMonitor" where
  "start now mon =
     (if isMonitoring mon then mon
      else mon\<lparr>isMonitoring := True, lastTime := now, frameCount := 0, droppedFrames := 0\<rparr>)"

definition stop :: "RenderMonitor \<Rightarrow> RenderMonitor" where
  "stop mon = mon\<lparr>isMonitoring := False\<rparr>"

datatype MonitorEvent =
    Start number
  | Stop
  | Frame number number string
  | Mutations "MutationRecord list" number string
  | SuspicionExpired Element
  | MeasuresObserved "MeasureEntry list" string
  | MarkReflowDue "MeasureEntry option" "Element option" "string option" string
  | MarkRepaintDue "MeasureEntry option" "Element option" "string option" string

fun monitor_step :: "RenderMonitor \<Rightarrow> MonitorEvent \<Rightarrow> RenderMonitor" where
  "monitor_step mon (Start now) = start now mon"
| "monitor_step mon Stop = stop mon"
| "monitor_step mon (Frame currentTime now stack) = checkFrame currentTime now stack mon"
| "monitor_step mon (Mutations ms now stack) =
     foldl (\<lambda>mon mutation. mutation_entry now stack mutation mon) mon ms"
| "monitor_step mon (SuspicionExpired el) =
     mon\<lparr>suspiciousElements := map_delete (suspiciousElements mon) el\<rparr>"
| "monitor_step mon (MeasuresObserved entries stack) =
     foldl (\<lambda>mon entry. frame_entry stack entry mon) mon entries"
| "monitor_step mon (MarkReflowDue found el reason stack) = markReflow stack found el reason mon"
| "monitor_step mon (MarkRepaintDue found el reason stack) = markRepaint stack found el reason mon"

definition monitor_run :: "RenderMonitor \<Rightarrow> MonitorEvent list \<Rightarrow> RenderMonitor" where
  "monitor_run mon events = foldl monitor_step mon events"

text \<open>The records of the two heuristic sources, told by their reason tag.\<close>

definition heuristic_reason :: "string \<Rightarrow> bool" where
  "heuristic_reason r \<longleftrightarrow> r = ''frame_drop'' \<or> prefix ''attribute_change:'' r"

definition heuristic_reflows :: "RenderMonitor \<Rightarrow> ReflowInfo list" where
  "heuristic_reflows mon = filter (\<lambda>r. heuristic_reason (rf_reason r)) (reflows mon)"

subsection \<open>GPU-acceleration classification\<close>

text \<open>
  \<open>checkGPUAcceleration\<close> runs five checks in a row on the record \<open>info\<close>; each is a
  definition here, in the order of the source. \<open>parseFloat\<close> is the platform's: it is an
  argument, giving \<open>None\<close> where the platform gives \<open>NaN\<close>.
\<close>

definition check_willChange :: "CSSStyleDeclaration \<Rightarrow> GPUAccelerationInfo \<Rightarrow> GPUAccelerationInfo" where
  "check_willChange computedStyle info =
     (let wc = css_willChange computedStyle
      in if wc \<noteq> [] \<and> wc \<noteq> ''auto'' \<and> trim wc \<noteq> []
         then info\<lparr>willChange := True, isAccelerated := True,
                accelerationMethods := accelerationMethods info @ [''will-change'']\<rparr>
         else info)"

definition check_transform ::
    "(string \<Rightarrow> number option) \<Rightarrow> CSSStyleDeclaration \<Rightarrow> GPUAccelerationInfo \<Rightarrow> GPUAccelerationInfo" where
  "check_transform parseFloat computedStyle info =
     (let tf = css_transform computedStyle;
          transitionProperty = css_transitionProperty computedStyle;
          transitionDuration = css_transitionDuration computedStyle;
          hasTransformTransition =
            (transitionProperty \<noteq> [] \<and>
             transitionProperty \<noteq> ''none'' \<and>
             (case parseFloat transitionDuration of None \<Rightarrow> False | Some d \<Rightarrow> d > 0) \<and>
             (str_includes transitionProperty ''transform'' \<or> transitionProperty = ''all''))
      in if tf \<noteq> [] \<and> tf \<noteq> ''none'' \<and> tf \<noteq> ''matrix(1, 0, 0, 1, 0, 0)'' then
           let info = info\<lparr>transform := True, isAccelerated := True,
                        accelerationMethods := accelerationMethods info @ [''transform'']\<rparr>
           in if str_includes tf ''translate3d'' \<or>
                 str_includes tf ''translateZ'' \<or>
                 str_includes tf ''perspective'' \<or>
                 str_includes tf ''matrix3d''
              then (if ''transform-3d'' \<notin> set (accelerationMethods info)
                    then info\<lparr>accelerationMethods := accelerationMethods info @ [''transform-3d'']\<rparr>
                    else info)
              else info
         else if hasTransformTransition then
           info\<lparr>transform := True, isAccelerated := True,
                accelerationMethods := accelerationMethods info @ [''transform-transition'']\<rparr>
         else info)"

definition check_opacity ::
    "(string \<Rightarrow> number option) \<Rightarrow> CSSStyleDeclaration \<Rightarrow> GPUAccelerationInfo \<Rightarrow> GPUAccelerationInfo" where
  "check_opacity parseFloat computedStyle info =
     (case parseFloat (css_opacity computedStyle) of
        None \<Rightarrow> info
      | Some opacityValue \<Rightarrow>
          if opacityValue < 1 \<and> opacityValue \<ge> 0
          then info\<lparr>opacity := True, isAccelerated := True,
                 accelerationMethods := accelerationMethods info @ [''opacity'']\<rparr>
          else info)"

definition check_filter :: "CSSStyleDeclaration \<Rightarrow> GPUAccelerationInfo \<Rightarrow> GPUAccelerationInfo" where
  "check_filter computedStyle info =
     (let fl = css_filter computedStyle
      in if fl \<noteq> [] \<and> fl \<noteq> ''none'' \<and> trim fl \<noteq> []
         then info\<lparr>filter_used := True, isAccelerated := True,
                accelerationMethods := accelerationMethods info @ [''filter'']\<rparr>
         else info)"

definition check_backdropFilter :: "CSSStyleDeclaration \<Rightarrow> GPUAccelerationInfo \<Rightarrow> GPUAccelerationInfo" where
  "check_backdropFilter computedStyle info =
     (let bf = css_backdropFilter computedStyle
      in if bf \<noteq> [] \<and> bf \<noteq> ''none'' \<and> trim bf \<noteq> []
         then info\<lparr>backdropFilter := True, isAccelerated := True,
                accelerationMethods := accelerationMethods info @ [''backdrop-filter'']\<rparr>
         else info)"

definition checkGPUAcceleration ::
    "(string \<Rightarrow> number option) \<Rightarrow> Element \<Rightarrow> CSSStyleDeclaration \<Rightarrow> GPUAccelerationInfo" where
  "checkGPUAcceleration parseFloat el computedStyle =
     (let info = \<lparr>gpu_element = el, gpu_elementPath = getElementPath (Some el),
                  isAccelerated = False, accelerationMethods = [],
                  willChange = False, transform = False, opacity = False,
                  filter_used = False, backdropFilter = False\<rparr>;
          info = check_willChange computedStyle info;
          info = check_transform parseFloat computedStyle info;
          info = check_opacity parseFloat computedStyle info;
          info = check_filter computedStyle info;
          info = check_backdropFilter computedStyle info
      in info)"

text \<open>
  One batch of the scan: the elements from \<open>index\<close> up to fifty further on. An element
  whose computed style cannot be read (\<open>None\<close>) is skipped. The result also tells where
  the next batch starts, if one is left.
\<close>

definition processGPUAccelerationBatch ::
    "(string \<Rightarrow> number option) \<Rightarrow> (Element \<Rightarrow> CSSStyleDeclaration option) \<Rightarrow>
     Element list \<Rightarrow> nat \<Rightarrow> RenderMonitor \<Rightarrow> RenderMonitor \<times> nat option" where
  "processGPUAccelerationBatch parseFloat getComputedStyle candidates index mon =
     (let batchSize = 50;
          endIndex = min (index + batchSize) (length candidates);
          mon = foldl (\<lambda>mon el.
                         case getComputedStyle el of
                           None \<Rightarrow> mon
                         | Some computedStyle \<Rightarrow>
                             let gpuInfo = checkGPUAcceleration parseFloat el computedStyle
                             in if isAccelerated gpuInfo
                                then mon\<lparr>gpuAcceleratedElements :=
                                       gpuAcceleratedElements mon @ [gpuInfo]\<rparr>
                                else mon)
                      mon (take (endIndex - index) (drop index candidates))
      in (mon, if endIndex < length candidates then Some endIndex else None))"





section \<open>Delivery queue and reporter (\<open>Reporter\<close>)\<close>

text \<open>
  The payload type \<open>'d\<close> stands for the metric set, resource, error or render data that
  an envelope carries.
\<close>

record 'd Report =
  report_type :: string
  report_data :: 'd

record 'd ReportData =
  rd_type :: string
  rd_data :: 'd
  rd_timestamp :: int
  rd_url :: string
  rd_userAgent :: string
  rd_appId :: "string option"
  rd_userId :: "string option"

record PerformanceHelperOptions =
  opt_reportUrl :: "string option"
  opt_appId :: "string option"
  opt_userId :: "string option"
  opt_immediate :: "bool option"
  opt_batchInterval :: "nat option"

record 'd Reporter =
  reportUrl :: "string option"
  appId :: "string option"
  userId :: "string option"
  immediate :: bool
  batchInterval :: nat
  queue :: "'d ReportData list"
  timer :: bool

text \<open>What the reporter reads from the page when it acts.\<close>

record Page =
  date_now :: int
  location_href :: string
  navigator_userAgent :: string
  hasSendBeacon :: bool

text \<open>
  What leaves the reporter: a payload printed to the console (no destination), handed to
  \<open>sendBeacon\<close>, or posted with a keep-alive \<open>fetch\<close>; and the error line that the
  \<open>catch\<close> handler of the \<open>fetch\<close> prints.
\<close>

datatype 'd Output =
    ConsoleLog "'d ReportData list"
  | Beacon string "'d ReportData list"
  | Fetch string "'d ReportData list"
  | ConsoleError string

definition new_reporter :: "PerformanceHelperOptions \<Rightarrow> 'd Reporter" where
  "new_reporter options =
     (let imm = (case opt_immediate options of None \<Rightarrow> False | Some b \<Rightarrow> b)
      in \<lparr>reportUrl = opt_reportUrl options, appId = opt_appId options, userId = opt_userId options,
          immediate = imm,
          batchInterval = (case opt_batchInterval options of
                             None \<Rightarrow> 5000 | Some n \<Rightarrow> if n = 0 then 5000 else n),
          queue = [], timer = (\<not> imm)\<rparr>)"

definition send :: "Page \<Rightarrow> 'd ReportData list \<Rightarrow> 'd Reporter \<times> 'd Output list \<Rightarrow> 'd Reporter \<times> 'd Output list" where
  "send page payload w =
     (let r = fst w; out = snd w
      in if \<not> truthy (reportUrl r) then (r, out @ [ConsoleLog payload])
         else if hasSendBeacon page then (r, out @ [Beacon (the (reportUrl r)) payload])
         else (r, out @ [Fetch (the (reportUrl r)) payload]))"

text \<open>The handler that \<open>send\<close> attaches to the \<open>fetch\<close> with \<open>catch\<close>: it runs when the call fails.\<close>

definition fetch_catch :: "string \<Rightarrow> 'd ReportData list \<Rightarrow> 'd Reporter \<times> 'd Output list \<Rightarrow> 'd Reporter \<times> 'd Output list" where
  "fetch_catch err payload w =
     (let r = fst w; out = snd w @ [ConsoleError err]
      in if \<not> immediate r then (r\<lparr>queue := queue r @ payload\<rparr>, out) else (r, out))"

definition stamp :: "Page \<Rightarrow> 'd Reporter \<Rightarrow> 'd Report \<Rightarrow> 'd ReportData" where
  "stamp page r d =
     \<lparr>rd_type = report_type d, rd_data = report_data d,
      rd_timestamp = date_now page, rd_url = location_href page,
      rd_userAgent = navigator_userAgent page,
      rd_appId = appId r, rd_userId = userId r\<rparr>"

definition report :: "Page \<Rightarrow> 'd Report \<Rightarrow> 'd Reporter \<times> 'd Output list \<Rightarrow> 'd Reporter \<times> 'd Output list" where
  "report page d w =
     (let r = fst w; reportData = stamp page r d
      in if immediate r then send page [reportData] w
         else (r\<lparr>queue := queue r @ [reportData]\<rparr>, snd w))"

definition batchReport :: "Page \<Rightarrow> 'd Reporter \<times> 'd Output list \<Rightarrow> 'd Reporter \<times> 'd Output list" where
  "batchReport page w =
     (let r = fst w
      in if length (queue r) = 0 then w
         else let dataToSend = queue r
              in send page dataToSend (r\<lparr>queue := []\<rparr>, snd w))"

definition destroy_reporter :: "Page \<Rightarrow> 'd Reporter \<times> 'd Output list \<Rightarrow> 'd Reporter \<times> 'd Output list" where
  "destroy_reporter page w = batchReport page ((fst w)\<lparr>timer := False\<rparr>, snd w)"

text \<open>
  The listener for \<open>beforeunload\<close>. It calls \<open>sendBeacon\<close> without testing for it: where
  the page has none the call throws and nothing is sent. The queue is left as it is.
\<close>

definition beforeunload :: "Page \<Rightarrow> 'd Reporter \<times> 'd Output list \<Rightarrow> 'd Reporter \<times> 'd Output list" where
  "beforeunload page w =
     (let r = fst w
      in if length (queue r) > 0 then
           if truthy (reportUrl r)
           then (if hasSendBeacon page then (r, snd w @ [Beacon (the (reportUrl r)) (queue r)]) else w)
           else (r, snd w @ [ConsoleLog (queue r)])
         else w)"

text \<open>
  What can happen to a reporter. The interval timer fires only while it is set; a failed
  \<open>fetch\<close> comes back later with its error and the payload it carried.
\<close>

datatype 'd ReporterEvent =
    ReportCalled Page "'d Report"
  | IntervalElapsed Page
  | FetchFailed string "'d ReportData list"
  | BeforeUnload Page
  | DestroyCalled Page

fun reporter_step :: "'d Reporter \<times> 'd Output list \<Rightarrow> 'd ReporterEvent \<Rightarrow> 'd Reporter \<times> 'd Output list" where
  "reporter_step w (ReportCalled page d) = report page d w"
| "reporter_step w (IntervalElapsed page) = (if timer (fst w) then batchReport page w else w)"
| "reporter_step w (FetchFailed err payload) = fetch_catch err payload w"
| "reporter_step w (BeforeUnload page) = beforeunload page w"
| "reporter_step w (DestroyCalled page) = destroy_reporter page w"

definition is_report :: "'d ReporterEvent \<Rightarrow> bool" where
  "is_report e = (case e of ReportCalled page d \<Rightarrow> True | _ \<Rightarrow> False)"

text \<open>The payloads that have been transmitted, whatever the transport.\<close>

fun transmitted :: "'d Output \<Rightarrow> 'd ReportData list list" where
  "transmitted (ConsoleLog payload) = [payload]"
| "transmitted (Beacon u payload) = [payload]"
| "transmitted (Fetch u payload) = [payload]"
| "transmitted (ConsoleError e) = []"

definition transmissions :: "'d Output list \<Rightarrow> 'd ReportData list list" where
  "transmissions out = concat (map transmitted out)"

section \<open>Vocabulary of the properties\<close>

text \<open>
  The definitions of this section are not code of the engine. They name what the
  properties below talk about, in the words of the specification, and fix the inputs of
  the worked examples.
\<close>

subsection \<open>Rounded values\<close>

definition is_integer :: "number \<Rightarrow> bool" where
  "is_integer x \<longleftrightarrow> of_int \<lfloor>x\<rfloor> = x"

definition opt_all :: "('a \<Rightarrow> bool) \<Rightarrow> 'a option \<Rightarrow> bool" where
  "opt_all P v = (case v of None \<Rightarrow> True | Some x \<Rightarrow> P x)"






subsection \<open>Layout-shift sessions and largest-content candidates\<close>

definition shift :: "number \<Rightarrow> number \<Rightarrow> LayoutShift" where
  "shift t v = \<lparr>ls_startTime = t, ls_value = v, hadRecentInput = False\<rparr>"

text \<open>Less than 1000 after the previous member and less than 5000 after the first.\<close>

definition within_session_window :: "LayoutShift list \<Rightarrow> LayoutShift \<Rightarrow> bool" where
  "within_session_window members e \<longleftrightarrow>
     ls_startTime e - ls_startTime (last members) < 1000 \<and>
     ls_startTime e - ls_startTime (hd members) < 5000"

text \<open>
  The rule of the specification for a shift without recent input: it joins the session
  when the session has a member and the shift is within the window of its members, and
  replaces the session otherwise.
\<close>

definition stated_cls_entry :: "LayoutShift \<Rightarrow> number \<times> LayoutShift list \<Rightarrow> number \<times> LayoutShift list" where
  "stated_cls_entry e session =
     (if hadRecentInput e then session
      else if snd session \<noteq> [] \<and> within_session_window (snd session) e
           then (fst session + ls_value e, snd session @ [e])
           else (ls_value e, [e]))"


text \<open>The selection policy in the specification's words: render time, else load time, else start time.\<close>

definition lcp_policy :: "LCPEntry \<Rightarrow> number" where
  "lcp_policy e =
     (case renderTime e of
        Some r \<Rightarrow>
          if r > 0 then r
          else (case loadTime e of
                  Some l \<Rightarrow> if l > 0 then l else lcp_startTime e
                | None \<Rightarrow> lcp_startTime e)
      | None \<Rightarrow>
          (case loadTime e of
             Some l \<Rightarrow> if l > 0 then l else lcp_startTime e
           | None \<Rightarrow> lcp_startTime e))"

definition candidate :: "number option \<Rightarrow> number option \<Rightarrow> number \<Rightarrow> Element option \<Rightarrow> LCPEntry" where
  "candidate r l s el = \<lparr>renderTime = r, loadTime = l, lcp_startTime = s, lcp_element = el\<rparr>"

definition hero :: Element where
  "hero = Element ''IMG'' ''hero'' [] (Some (Element ''BODY'' [] [] None, 0))"

subsection \<open>Long tasks\<close>

text \<open>The blocking time the callback adds up, and the sum the specification states.\<close>

definition blocking_total :: "LongTaskEntry list \<Rightarrow> number" where
  "blocking_total entries =
     (\<Sum>e\<leftarrow>filter (\<lambda>e. lte_duration e > 50) entries. Math_round (lte_duration e - 50))"

definition stated_tbt :: "LongTaskEntry list \<Rightarrow> number" where
  "stated_tbt entries =
     (\<Sum>e\<leftarrow>filter (\<lambda>e. lte_duration e > 50) entries. lte_duration e - 50)"

text \<open>Resumming the contributions of the stored tasks.\<close>

definition resummed :: "LongTaskInfo list \<Rightarrow> number" where
  "resummed tasks = (\<Sum>t\<leftarrow>filter (\<lambda>t. lt_duration t > 50) tasks. lt_duration t - 50)"

definition stored_tasks :: "LongTaskEntry list \<Rightarrow> LongTaskInfo list" where
  "stored_tasks entries = map longTaskInfo (filter (\<lambda>e. lte_duration e > 50) entries)"

fun delivered :: "Event \<Rightarrow> LongTaskEntry list" where
  "delivered (LongTaskObserved entries) = entries"
| "delivered _ = []"

definition observed_long_tasks :: "Event list \<Rightarrow> LongTaskEntry list" where
  "observed_long_tasks events = concat (map delivered events)"

definition tbt_inv :: "Collector \<Rightarrow> LongTaskEntry list \<Rightarrow> bool" where
  "tbt_inv c obs \<longleftrightarrow>
     initialized c \<and> longTaskObserver c \<and>
     longTasks (metrics c) = Some (stored_tasks obs) \<and>
     tbt (metrics c) = Some (blocking_total obs)"

definition long_enough :: "PerformanceMetrics \<Rightarrow> bool" where
  "long_enough m \<longleftrightarrow> opt_all (list_all (\<lambda>t. lt_duration t \<ge> 50)) (longTasks m)"

definition long_task :: "number \<Rightarrow> number \<Rightarrow> LongTaskEntry" where
  "long_task t d =
     \<lparr>lte_name = ''self'', lte_startTime = t, lte_duration = d,
      lte_attribution = None, lte_scriptURL = None\<rparr>"

text \<open>A page that offers every interface, with an empty timeline.\<close>

definition full_host :: Host where
  "full_host =
     \<lparr>hasPerformanceObserver = True, hasGetEntriesByType = True,
      supportsType = (\<lambda>t. True), paintEntries = [],
      navigationEntries = Some [], lcpEntries = Some [], timing = None\<rparr>"








subsection \<open>Reflow records and GPU classification\<close>

definition width_mutation :: "Element \<Rightarrow> MutationRecord" where
  "width_mutation el = \<lparr>mr_type = attributes, mr_target = el, mr_attributeName = Some ''width''\<rparr>"

definition child_mutation :: "Element \<Rightarrow> MutationRecord" where
  "child_mutation el = \<lparr>mr_type = childList, mr_target = el, mr_attributeName = None\<rparr>"

definition item :: "nat \<Rightarrow> Element" where
  "item k = Element ''LI'' [] [] (Some (Element ''UL'' ''list'' [] None, k))"

definition started :: RenderMonitor where
  "started = start 0 new_monitor"









subsection \<open>Reporter runs\<close>

fun stamped :: "'d Reporter \<Rightarrow> 'd ReporterEvent \<Rightarrow> 'd ReportData list" where
  "stamped r (ReportCalled page d) = [stamp page r d]"
| "stamped r _ = []"

definition reporter_run ::
    "'d Reporter \<times> 'd Output list \<Rightarrow> 'd ReporterEvent list \<Rightarrow> 'd Reporter \<times> 'd Output list" where
  "reporter_run w events = foldl reporter_step w events"

text \<open>The events at which the queue may be transmitted.\<close>

fun flushes :: "'d ReporterEvent \<Rightarrow> bool" where
  "flushes (IntervalElapsed page) = True"
| "flushes (DestroyCalled page) = True"
| "flushes (BeforeUnload page) = True"
| "flushes _ = False"

definition page0 :: Page where
  "page0 = \<lparr>date_now = 1700000000000, location_href = ''https://example.org/'',
            navigator_userAgent = ''UA'', hasSendBeacon = False\<rparr>"

definition beacon_page :: Page where
  "beacon_page = page0\<lparr>hasSendBeacon := True\<rparr>"

definition batched_reporter :: "nat Reporter" where
  "batched_reporter =
     new_reporter \<lparr>opt_reportUrl = Some ''https://example.org/report'', opt_appId = Some ''app'',
                   opt_userId = None, opt_immediate = None, opt_batchInterval = None\<rparr>"

definition immediate_reporter :: "nat Reporter" where
  "immediate_reporter =
     new_reporter \<lparr>opt_reportUrl = Some ''https://example.org/report'', opt_appId = Some ''app'',
                   opt_userId = None, opt_immediate = Some True, opt_batchInterval = None\<rparr>"

definition perf_report :: "nat \<Rightarrow> nat Report" where
  "perf_report n = \<lparr>report_type = ''performance'', report_data = n\<rparr>"

section \<open>Properties\<close>

subsection \<open>The operations in exact arithmetic\<close>

text \<open>With the identity for the rounding, each operation is its source text read exactly.\<close>

lemma fid_entry_eq:
  "fid_entry entry m =
     (if processingStart entry \<noteq> 0 \<and> fi_startTime entry \<noteq> 0
      then m\<lparr>fid := Some (Math_round (processingStart entry - fi_startTime entry))\<rparr> else m)"
  by (simp add: fid_entry_def fid_entry_fl_def)

lemma observeFID_callback_eq:
  "observeFID_callback entries c =
     c\<lparr>metrics := foldl (\<lambda>m entry. fid_entry entry m) (metrics c) entries,
       fidObserver :=
         (if list_ex (\<lambda>entry. processingStart entry \<noteq> 0 \<and> fi_startTime entry \<noteq> 0) entries
          then False else fidObserver c)\<rparr>"
  by (simp add: observeFID_callback_def observeFID_callback_fl_def fid_entry_def)

lemma cls_entry_eq:
  "cls_entry layoutShift session =
     (let clsValue = fst session; clsEntries = snd session
      in if \<not> hadRecentInput layoutShift then
           if clsValue \<noteq> 0 \<and>
              length clsEntries > 0 \<and>
              ls_startTime layoutShift - ls_startTime (last clsEntries) < 1000 \<and>
              ls_startTime layoutShift - ls_startTime (hd clsEntries) < 5000
           then (clsValue + ls_value layoutShift, clsEntries @ [layoutShift])
           else (ls_value layoutShift, [layoutShift])
         else (clsValue, clsEntries))"
  by (simp add: cls_entry_def cls_entry_fl_def)

lemma observeCLS_callback_eq:
  "observeCLS_callback entries c =
     (let session = foldl (\<lambda>s entry. cls_entry entry s) (clsValue c, clsEntries c) entries
      in c\<lparr>clsValue := fst session, clsEntries := snd session,
            metrics := (metrics c)\<lparr>cls := Some (Math_round (fst session * 1000) / 1000)\<rparr>\<rparr>)"
  by (simp add: observeCLS_callback_def observeCLS_callback_fl_def cls_entry_def)

lemma longTask_entry_eq:
  "longTask_entry entry m =
     (if lte_duration entry > 50 then
        case longTasks m of
          None \<Rightarrow> m
        | Some tasks \<Rightarrow>
            let m = m\<lparr>longTasks := Some (tasks @ [longTaskInfo entry])\<rparr>;
                blockingTime = Math_round (lte_duration entry - 50)
            in m\<lparr>tbt := Some ((case tbt m of None \<Rightarrow> 0 | Some t \<Rightarrow> t) + blockingTime)\<rparr>
      else m)"
  by (simp add: longTask_entry_def longTask_entry_fl_def)

lemma observeTBT_callback_eq:
  "observeTBT_callback entries m = foldl (\<lambda>m entry. longTask_entry entry m) m entries"
  by (simp add: observeTBT_callback_def observeTBT_callback_fl_def longTask_entry_def)

lemma updateTBT_eq:
  "updateTBT m =
     (case longTasks m of
        None \<Rightarrow> m\<lparr>tbt := Some 0\<rparr>
      | Some tasks \<Rightarrow>
          if length tasks = 0 then m\<lparr>tbt := Some 0\<rparr>
          else
            let tbt = foldl (\<lambda>tbt task.
                               if lt_duration task > 50 then tbt + (lt_duration task - 50) else tbt)
                            0 tasks
            in m\<lparr>tbt := Some (Math_round tbt)\<rparr>)"
  by (simp add: updateTBT_def updateTBT_fl_def)

lemma observeTBT_eq:
  "observeTBT h c =
     (if \<not> hasPerformanceObserver h then c
      else
        let m = metrics c;
            m = (if longTasks m = None then m\<lparr>longTasks := Some []\<rparr> else m);
            m = m\<lparr>tbt := Some 0\<rparr>
        in if supportsType h ''longtask''
           then c\<lparr>metrics := updateTBT m, longTaskObserver := True\<rparr>
           else c\<lparr>metrics := m\<rparr>)"
  unfolding observeTBT_def observeTBT_fl_def updateTBT_def by (rule refl)

lemma collectWebVitals_eq:
  "collectWebVitals h c = observeTBT h (observeCLS h (observeFID h (observeLCP h (observeFCP h c))))"
  by (simp add: collectWebVitals_def collectWebVitals_fl_def observeTBT_def)

lemma init_eq:
  "init h c = (if initialized c then c else (collectWebVitals h c)\<lparr>initialized := True\<rparr>)"
  by (simp add: init_def init_fl_def collectWebVitals_def)

lemma collectNavigationTimingLegacy_eq:
  "collectNavigationTimingLegacy h m =
     (case timing h of
        None \<Rightarrow> m
      | Some tm \<Rightarrow>
          m\<lparr>dns := Some (t_domainLookupEnd tm - t_domainLookupStart tm),
            tcp := Some (t_connectEnd tm - t_connectStart tm),
            ttfb := Some (t_responseStart tm - t_navigationStart tm),
            request := Some (t_responseEnd tm - t_responseStart tm),
            parse := Some (t_domInteractive tm - t_responseEnd tm),
            domContentLoaded := Some (t_domContentLoadedEventEnd tm - t_navigationStart tm),
            load := Some (t_loadEventEnd tm - t_navigationStart tm)\<rparr>)"
  by (simp add: collectNavigationTimingLegacy_def collectNavigationTimingLegacy_fl_def)

lemma collectNavigationTiming_eq:
  "collectNavigationTiming h m =
     (if \<not> hasGetEntriesByType h then m
      else case navigationEntries h of
        None \<Rightarrow> collectNavigationTimingLegacy h m
      | Some [] \<Rightarrow> m
      | Some (navigation # rest) \<Rightarrow>
          m\<lparr>dns := Some (Math_round (domainLookupEnd navigation - domainLookupStart navigation)),
            tcp := Some (Math_round (connectEnd navigation - connectStart navigation)),
            ttfb := Some (Math_round (responseStart navigation -
                      (if requestStart navigation \<noteq> 0 then requestStart navigation
                       else fetchStart navigation))),
            request := Some (Math_round (responseEnd navigation - responseStart navigation)),
            parse := Some (Math_round (domInteractive navigation - responseEnd navigation)),
            domContentLoaded :=
              Some (Math_round (domContentLoadedEventEnd navigation - nav_startTime navigation)),
            load := Some (Math_round (loadEventEnd navigation - nav_startTime navigation))\<rparr>)"
  unfolding collectNavigationTiming_def collectNavigationTiming_fl_def
    collectNavigationTimingLegacy_def
  by simp

lemma collect_eq:
  "collect h c =
     (let c = c\<lparr>metrics := collectFinalLCP h (collectNavigationTiming h (metrics c))\<rparr>
      in (metrics c, c))"
  by (simp add: collect_def collect_fl_def collectNavigationTiming_def)

lemma step_simps [simp]:
  "step c (Init h) = init h c"
  "step c (Collect h) = snd (collect h c)"
  "step c Destroy = destroy c"
  "step c (PaintObserved paints) = (if fcpObserver c then observeFCP_callback paints c else c)"
  "step c (LCPObserved candidates) =
     (if lcpObserver c then c\<lparr>metrics := observeLCP_callback candidates (metrics c)\<rparr> else c)"
  "step c (FirstInputObserved inputs) =
     (if fidObserver c then observeFID_callback inputs c else c)"
  "step c (LayoutShiftObserved shifts) =
     (if clsObserver c then observeCLS_callback shifts c else c)"
  "step c (LongTaskObserved tasks) =
     (if longTaskObserver c then c\<lparr>metrics := observeTBT_callback tasks (metrics c)\<rparr> else c)"
  by (simp_all add: step_def init_def collect_def observeFID_callback_def
        observeCLS_callback_def observeTBT_callback_def)

lemma run_eq: "run c events = foldl step c events"
  by (simp add: run_def run_fl_def step_def)

subsection \<open>Rounding\<close>

lemma floor_rat_numeral_div: "\<lfloor>(numeral a / numeral b :: rat)\<rfloor> = numeral a div numeral b"
  by (metis floor_divide_of_int_eq of_int_numeral)

lemma opt_all_simps [simp]: "opt_all P None" "opt_all P (Some x) = P x"
  by (simp_all add: opt_all_def)

lemma is_integer_of_int [simp]: "is_integer (of_int k)"
  by (simp add: is_integer_def)

lemma is_integer_Math_round [simp]: "is_integer (Math_round x)"
  by (simp add: Math_round_def)

lemma is_integer_0 [simp]: "is_integer 0"
  by (simp add: is_integer_def)

lemma is_integer_add: "is_integer x \<Longrightarrow> is_integer y \<Longrightarrow> is_integer (x + y)"
  by (metis is_integer_def is_integer_of_int of_int_add)


lemma Math_round_of_int [simp]: "Math_round (of_int k) = of_int k"
proof -
  have "\<lfloor>(of_int k :: rat) + 1 / 2\<rfloor> = k"
    by (rule floor_unique) simp_all
  then show ?thesis by (simp add: Math_round_def)
qed

lemma is_integer_Math_round_id: "is_integer x \<Longrightarrow> Math_round x = x"
  by (metis is_integer_def Math_round_of_int)

lemma Math_round_minus_50: "Math_round (x - 50) = Math_round x - 50"
proof -
  have "x - 50 + 1 / 2 = (x + 1 / 2) - of_int 50" by simp
  then have "\<lfloor>x - 50 + 1 / 2\<rfloor> = \<lfloor>x + 1 / 2\<rfloor> - 50"
    by (simp only: floor_diff_of_int)
  then show ?thesis by (simp add: Math_round_def)
qed

lemma Math_round_ge_50: "x > 50 \<Longrightarrow> Math_round x \<ge> 50"
proof -
  assume "x > 50"
  then have "of_int 50 \<le> x + 1 / 2" by simp
  then have "50 \<le> \<lfloor>x + 1 / 2\<rfloor>" by (simp only: le_floor_iff)
  then have "(of_int 50 :: rat) \<le> of_int \<lfloor>x + 1 / 2\<rfloor>" by (simp only: of_int_le_iff)
  then show ?thesis by (simp add: Math_round_def)
qed


subsection \<open>Layout-shift sessions\<close>

text \<open>
  Claim C2, as the code has it. Of the shifts at 0 (0.1), 500 (0.05) and 4800 (0.2), all
  without recent input, the first two form one session with running value 0.15. The
  third starts 4300 after the second, which is not less than 1000: it opens a new
  session, and the reported value is 0.2. A further shift at 6000 opens a new session
  again, whose running value is its own value \<open>v\<close>; the reported value is \<open>v\<close> rounded to
  three decimals.
\<close>

theorem cls_example_sessions:
  "clsValue (observeCLS_callback [shift 0 (1/10), shift 500 (5/100)] new_collector) = 15/100 \<and>
   clsEntries (observeCLS_callback [shift 0 (1/10), shift 500 (5/100)] new_collector)
     = [shift 0 (1/10), shift 500 (5/100)] \<and>
   clsValue (observeCLS_callback [shift 0 (1/10), shift 500 (5/100), shift 4800 (2/10)]
               new_collector) = 2/10 \<and>
   clsEntries (observeCLS_callback [shift 0 (1/10), shift 500 (5/100), shift 4800 (2/10)]
                 new_collector) = [shift 4800 (2/10)] \<and>
   cls (metrics (observeCLS_callback [shift 0 (1/10), shift 500 (5/100), shift 4800 (2/10)]
                   new_collector)) = Some (2/10) \<and>
   clsValue (observeCLS_callback
               [shift 0 (1/10), shift 500 (5/100), shift 4800 (2/10), shift 6000 v]
               new_collector) = v \<and>
   clsEntries (observeCLS_callback
                 [shift 0 (1/10), shift 500 (5/100), shift 4800 (2/10), shift 6000 v]
                 new_collector) = [shift 6000 v] \<and>
   cls (metrics (observeCLS_callback
                   [shift 0 (1/10), shift 500 (5/100), shift 4800 (2/10), shift 6000 v]
                   new_collector)) = Some (Math_round (v * 1000) / 1000)"
  by (simp add: observeCLS_callback_eq cls_entry_eq shift_def new_collector_def
        Math_round_def floor_rat_numeral_div)

text \<open>
  The value the claim states for the three shifts, 0.35, is not the one reported: the
  collector reports 0.2.
\<close>

theorem cls_example_counterexample:
  "cls (metrics (observeCLS_callback [shift 0 (1/10), shift 500 (5/100), shift 4800 (2/10)]
                   new_collector)) = Some (2/10) \<and>
   cls (metrics (observeCLS_callback [shift 0 (1/10), shift 500 (5/100), shift 4800 (2/10)]
                   new_collector)) \<noteq> Some (35/100)"
  by (simp add: observeCLS_callback_eq cls_entry_eq shift_def new_collector_def
        Math_round_def floor_rat_numeral_div)

text \<open>
  The example in the engine's arithmetic, the three values being the doubles nearest to
  0.1, 0.05 and 0.2: the third shift again replaces the session, and the score is the
  double nearest to 0.2.
\<close>

lemma cls_example_binary64:
  "map ls_startTime (clsEntries (observeCLS_callback_fl binary64
      [shift 0 (binary64 (1/10)), shift 500 (binary64 (5/100)), shift 4800 (binary64 (2/10))]
      new_collector)) = [4800] \<and>
   cls (metrics (observeCLS_callback_fl binary64
      [shift 0 (binary64 (1/10)), shift 500 (binary64 (5/100)), shift 4800 (binary64 (2/10))]
      new_collector)) = Some (binary64 (2/10))"
  by code_simp


text \<open>
  With a running value that is not zero the code follows the rule, the differences of the
  start times and the new running value being rounded as the arithmetic rounds them; in
  exact arithmetic it is the stated rule to the letter.
\<close>

lemma cls_entry_fl_rule:
  assumes "\<not> hadRecentInput e" and "fst s \<noteq> 0"
  shows "cls_entry_fl fl e s =
     (if snd s \<noteq> [] \<and> fl (ls_startTime e - ls_startTime (last (snd s))) < 1000 \<and>
         fl (ls_startTime e - ls_startTime (hd (snd s))) < 5000
      then (fl (fst s + ls_value e), snd s @ [e]) else (ls_value e, [e]))"
  using assms by (simp add: cls_entry_fl_def Let_def)

lemma cls_entry_stated: "fst s \<noteq> 0 \<Longrightarrow> cls_entry e s = stated_cls_entry e s"
  by (cases s) (simp add: cls_entry_eq stated_cls_entry_def within_session_window_def Let_def)

text \<open>
  Where every shift has a positive value, a session with a member has a positive running
  value, and the test of the running value in the code is the test for a member.
\<close>

lemma cls_entry_positive:
  assumes "ls_value e > 0" and "snd s \<noteq> [] \<longrightarrow> fst s > 0"
  shows "snd (cls_entry e s) \<noteq> [] \<longrightarrow> fst (cls_entry e s) > 0"
  using assms by (auto simp: cls_entry_eq Let_def)

lemma cls_positive_sessions:
  assumes "list_all (\<lambda>e. ls_value e > 0) entries"
      and "clsEntries c \<noteq> [] \<longrightarrow> clsValue c > 0"
  shows "clsEntries (observeCLS_callback entries c) \<noteq> [] \<longrightarrow>
         clsValue (observeCLS_callback entries c) > 0"
proof -
  have "snd (foldl (\<lambda>s entry. cls_entry entry s) s entries) \<noteq> [] \<longrightarrow>
        fst (foldl (\<lambda>s entry. cls_entry entry s) s entries) > 0"
    if "list_all (\<lambda>e. ls_value e > 0) entries" and "snd s \<noteq> [] \<longrightarrow> fst s > 0" for s
    using that
  proof (induction entries arbitrary: s)
    case Nil
    then show ?case by simp
  next
    case (Cons e es)
    from Cons.prems have "snd (cls_entry e s) \<noteq> [] \<longrightarrow> fst (cls_entry e s) > 0"
      by (intro cls_entry_positive) simp_all
    with Cons.IH [of "cls_entry e s"] Cons.prems(1) show ?case by simp
  qed
  from this [of "(clsValue c, clsEntries c)"] assms show ?thesis
    by (simp add: observeCLS_callback_eq Let_def)
qed

lemma cls_stated_on_positive_shifts:
  assumes "list_all (\<lambda>e. ls_value e > 0) entries"
  shows "foldl (\<lambda>s entry. cls_entry entry s) (0, []) entries
           = foldl (\<lambda>s entry. stated_cls_entry entry s) (0, []) entries"
proof -
  have "foldl (\<lambda>s entry. cls_entry entry s) s entries
          = foldl (\<lambda>s entry. stated_cls_entry entry s) s entries"
    if "list_all (\<lambda>e. ls_value e > 0) entries" and "snd s = [] \<or> fst s > 0" for s
    using that
  proof (induction entries arbitrary: s)
    case Nil
    show ?case by simp
  next
    case (Cons e es)
    have eq: "cls_entry e s = stated_cls_entry e s"
    proof (cases "snd s = []")
      case True
      then show ?thesis
        by (cases s) (simp add: cls_entry_eq stated_cls_entry_def Let_def)
    next
      case False
      with Cons.prems(2) have "fst s \<noteq> 0" by auto
      then show ?thesis by (rule cls_entry_stated)
    qed
    have "snd (cls_entry e s) = [] \<or> fst (cls_entry e s) > 0"
      using cls_entry_positive [of e s] Cons.prems by auto
    with Cons.IH [of "cls_entry e s"] Cons.prems(1) eq show ?case by simp
  qed
  from this [of "(0, [])"] assms show ?thesis by simp
qed

subsection \<open>Largest contentful paint\<close>

lemma observeLCP_callback_policy:
  "observeLCP_callback entries m =
     (if entries = [] then m
      else if lcp_policy (last entries) > 0
      then m\<lparr>lcp := Some (Math_round (lcp_policy (last entries))),
             lcpElement := (if lcp_element (last entries) \<noteq> None \<and>
                               getElementPath (lcp_element (last entries)) \<noteq> []
                            then Some (getElementPath (lcp_element (last entries)))
                            else lcpElement m)\<rparr>
      else m)"
  by (auto simp: observeLCP_callback_def lcp_policy_def Let_def split: option.splits)

lemma collectFinalLCP_callback:
  "hasGetEntriesByType h \<Longrightarrow> lcpEntries h = Some entries \<Longrightarrow>
   collectFinalLCP h m = observeLCP_callback entries m"
  by (simp add: collectFinalLCP_def observeLCP_callback_def)

lemma lcp_policy_examples:
  "lcp_policy (candidate (Some 1200) (Some 1500) s el) = 1200"
  "lcp_policy (candidate (Some 0) (Some 900) s el) = 900"
  "lcp_policy (candidate (Some 0) (Some 0) 300 el) = 300"
  by (simp_all add: lcp_policy_def candidate_def)

text \<open>
  Claim C4, as the code has it. On every firing the callback applies the policy (render
  time if positive, else load time if positive, else start time) to the last candidate
  of the batch. If the selected value is positive, the stored value becomes its rounding
  to the nearest integer, and the stored path becomes the candidate element's serialized
  path when the candidate has an element with a non-empty path, and stays what it was
  otherwise; if the selected value is not positive, nothing is stored. \<open>collect\<close> does
  the same with the last candidate of the timeline's history. The three examples of the
  claim give 1200, 900 and 300.
\<close>

theorem lcp_selection:
  "(entries \<noteq> [] \<and> lcp_policy (last entries) > 0 \<longrightarrow>
      lcp (observeLCP_callback entries m) = Some (Math_round (lcp_policy (last entries))) \<and>
      lcpElement (observeLCP_callback entries m) =
        (if lcp_element (last entries) \<noteq> None \<and> getElementPath (lcp_element (last entries)) \<noteq> []
         then Some (getElementPath (lcp_element (last entries))) else lcpElement m)) \<and>
   (entries \<noteq> [] \<and> \<not> lcp_policy (last entries) > 0 \<longrightarrow> observeLCP_callback entries m = m) \<and>
   (hasGetEntriesByType h \<and> lcpEntries h = Some entries \<longrightarrow>
      lcp (fst (collect h c)) = lcp (observeLCP_callback entries (metrics c)) \<and>
      lcpElement (fst (collect h c)) = lcpElement (observeLCP_callback entries (metrics c))) \<and>
   lcp (observeLCP_callback [candidate (Some 1200) (Some 1500) s el] m) = Some 1200 \<and>
   lcp (observeLCP_callback [candidate (Some 0) (Some 900) s el] m) = Some 900 \<and>
   lcp (observeLCP_callback [candidate (Some 0) (Some 0) 300 el] m) = Some 300"
proof -
  have nav: "lcp (collectNavigationTiming h m') = lcp m' \<and>
             lcpElement (collectNavigationTiming h m') = lcpElement m'" for m'
    by (simp add: collectNavigationTiming_eq collectNavigationTimingLegacy_eq
          split: option.splits list.splits)
  have same: "lcp (observeLCP_callback entries m1) = lcp (observeLCP_callback entries m2) \<and>
              lcpElement (observeLCP_callback entries m1) = lcpElement (observeLCP_callback entries m2)"
    if "lcp m1 = lcp m2" "lcpElement m1 = lcpElement m2" for m1 m2
    using that by (simp add: observeLCP_callback_policy)
  have col: "hasGetEntriesByType h \<and> lcpEntries h = Some entries \<longrightarrow>
      lcp (fst (collect h c)) = lcp (observeLCP_callback entries (metrics c)) \<and>
      lcpElement (fst (collect h c)) = lcpElement (observeLCP_callback entries (metrics c))"
    using same [of "collectNavigationTiming h (metrics c)" "metrics c"] nav [of "metrics c"]
    by (simp add: collect_eq Let_def collectFinalLCP_callback)
  have ex: "lcp (observeLCP_callback [candidate (Some 1200) (Some 1500) s el] m) = Some 1200"
    "lcp (observeLCP_callback [candidate (Some 0) (Some 900) s el] m) = Some 900"
    "lcp (observeLCP_callback [candidate (Some 0) (Some 0) 300 el] m) = Some 300"
    using Math_round_of_int [of 1200] Math_round_of_int [of 900] Math_round_of_int [of 300]
    by (simp_all add: observeLCP_callback_policy lcp_policy_examples)
  show ?thesis
    using col ex by (simp add: observeLCP_callback_policy)
qed

text \<open>
  The rule on a candidate with a render time of 1234.5 and an element: the stored value is
  1235 and the stored path is the element's, from the callback and from \<open>collect\<close> alike.
  A candidate whose three times are 0 stores nothing.
\<close>

theorem lcp_selection_witness:
  "[candidate (Some (2469/2)) None 1500 (Some hero)] \<noteq> [] \<and>
   lcp_policy (last [candidate (Some (2469/2)) None 1500 (Some hero)]) > 0 \<and>
   lcp (observeLCP_callback [candidate (Some (2469/2)) None 1500 (Some hero)] empty_metrics)
     = Some 1235 \<and>
   lcpElement (observeLCP_callback [candidate (Some (2469/2)) None 1500 (Some hero)] empty_metrics)
     = Some ''body > img#hero'' \<and>
   hasGetEntriesByType (full_host\<lparr>lcpEntries := Some [candidate (Some (2469/2)) None 1500 (Some hero)]\<rparr>) \<and>
   lcp (fst (collect (full_host\<lparr>lcpEntries := Some [candidate (Some (2469/2)) None 1500 (Some hero)]\<rparr>)
               new_collector)) = Some 1235 \<and>
   \<not> lcp_policy (last [candidate (Some 0) (Some 0) 0 (Some hero)]) > 0 \<and>
   observeLCP_callback [candidate (Some 0) (Some 0) 0 (Some hero)] empty_metrics = empty_metrics"
proof -
  let ?e = "candidate (Some (2469/2)) None 1500 (Some hero)"
  let ?z = "candidate (Some 0) (Some 0) 0 (Some hero)"
  let ?h = "full_host\<lparr>lcpEntries := Some [?e]\<rparr>"
  have p: "lcp_policy ?e = 2469/2"
    by (simp add: lcp_policy_def candidate_def)
  have r: "Math_round (2469/2) = 1235"
    by (simp add: Math_round_def floor_rat_numeral_div)
  have el: "lcp_element ?e = Some hero"
    by (simp add: candidate_def)
  have path: "getElementPath (Some hero) = ''body > img#hero''"
    by code_simp
  have pz: "\<not> lcp_policy (last [?z]) > 0"
    by (simp add: lcp_policy_def candidate_def)
  have hh: "hasGetEntriesByType ?h \<and> lcpEntries ?h = Some [?e]"
    by (simp add: full_host_def)
  have pe: "[?e] \<noteq> [] \<and> lcp_policy (last [?e]) > 0"
    by (simp add: p)
  note t = lcp_selection [of "[?e]" empty_metrics ?h new_collector]
  from t pe
  have cb: "lcp (observeLCP_callback [?e] empty_metrics) = Some (Math_round (lcp_policy (last [?e]))) \<and>
        lcpElement (observeLCP_callback [?e] empty_metrics) =
          (if lcp_element (last [?e]) \<noteq> None \<and> getElementPath (lcp_element (last [?e])) \<noteq> []
           then Some (getElementPath (lcp_element (last [?e]))) else lcpElement empty_metrics)"
    by blast
  from t hh
  have "lcp (fst (collect ?h new_collector)) = lcp (observeLCP_callback [?e] (metrics new_collector))"
    by blast
  then have co: "lcp (fst (collect ?h new_collector)) = lcp (observeLCP_callback [?e] empty_metrics)"
    by (simp add: new_collector_def)
  from lcp_selection [of "[?z]" empty_metrics] pz
  have z: "observeLCP_callback [?z] empty_metrics = empty_metrics"
    by blast
  from cb co z pz hh show ?thesis
    by (simp add: p r el path)
qed

text \<open>
  Two inputs on which the claim as stated fails. A render time of 1200.6 is stored as
  1201, not as the selected 1200.6. A candidate without an element, coming after one with
  an element, updates the value to 1200 and leaves the earlier candidate's path in place.
\<close>

theorem lcp_selection_counterexample:
  "lcp_policy (candidate (Some (6003/5)) (Some 1500) 1500 None) = 6003/5 \<and>
   lcp (observeLCP_callback [candidate (Some (6003/5)) (Some 1500) 1500 None] empty_metrics)
     = Some 1201 \<and>
   lcp (observeLCP_callback [candidate (Some 1200) None 1200 None]
          (observeLCP_callback [candidate (Some 800) None 800 (Some hero)] empty_metrics))
     = Some 1200 \<and>
   lcpElement (observeLCP_callback [candidate (Some 1200) None 1200 None]
                 (observeLCP_callback [candidate (Some 800) None 800 (Some hero)] empty_metrics))
     = Some (getElementPath (Some hero)) \<and>
   getElementPath (Some hero) = ''body > img#hero''"
  by code_simp

subsection \<open>Long tasks and total blocking time\<close>

lemma tbt_callback_effect:
  "longTasks m = Some ts \<Longrightarrow> tbt m = Some t \<Longrightarrow>
   longTasks (observeTBT_callback es m) = Some (ts @ stored_tasks es) \<and>
   tbt (observeTBT_callback es m) = Some (t + blocking_total es)"
  unfolding observeTBT_callback_eq
proof (induction es arbitrary: m ts t)
  case Nil
  then show ?case by (simp add: stored_tasks_def blocking_total_def)
next
  case (Cons e es)
  show ?case
  proof (cases "lte_duration e > 50")
    case True
    let ?m = "longTask_entry e m"
    have a: "longTasks ?m = Some (ts @ [longTaskInfo e])"
      and b: "tbt ?m = Some (t + Math_round (lte_duration e - 50))"
      using True Cons.prems by (simp_all add: longTask_entry_eq Let_def)
    from Cons.IH [OF a b] True show ?thesis
      by (simp add: stored_tasks_def blocking_total_def add.assoc)
  next
    case False
    then have "longTask_entry e m = m" by (simp add: longTask_entry_eq)
    with Cons.IH [OF Cons.prems] False show ?thesis
      by (simp add: stored_tasks_def blocking_total_def)
  qed
qed

lemma longTasks_callback:
  "longTasks m = Some ts \<Longrightarrow> longTasks (observeTBT_callback es m) = Some (ts @ stored_tasks es)"
  unfolding observeTBT_callback_eq
proof (induction es arbitrary: m ts)
  case Nil
  then show ?case by (simp add: stored_tasks_def)
next
  case (Cons e es)
  show ?case
  proof (cases "lte_duration e > 50")
    case True
    have a: "longTasks (longTask_entry e m) = Some (ts @ [longTaskInfo e])"
      using True Cons.prems by (simp add: longTask_entry_eq Let_def)
    from Cons.IH [OF a] True show ?thesis by (simp add: stored_tasks_def)
  next
    case False
    then have "longTask_entry e m = m" by (simp add: longTask_entry_eq)
    with Cons.IH [OF Cons.prems] False show ?thesis by (simp add: stored_tasks_def)
  qed
qed

lemma longTasks_callback_None:
  "longTasks m = None \<Longrightarrow> longTasks (observeTBT_callback es m) = None"
  unfolding observeTBT_callback_eq
  by (induction es arbitrary: m) (simp_all add: longTask_entry_eq)

lemma resummed_Cons:
  "resummed (t # ts) = (if lt_duration t > 50 then lt_duration t - 50 else 0) + resummed ts"
  by (simp add: resummed_def)

lemma blocking_total_Cons:
  "blocking_total (e # es) =
     (if lte_duration e > 50 then Math_round (lte_duration e - 50) else 0) + blocking_total es"
  by (simp add: blocking_total_def)

lemma stored_tasks_Cons:
  "stored_tasks (e # es) =
     (if lte_duration e > 50 then longTaskInfo e # stored_tasks es else stored_tasks es)"
  by (simp add: stored_tasks_def)

lemma stored_contribution:
  assumes "d > 50"
  shows "(if Math_round d > 50 then Math_round d - 50 else 0) = Math_round (d - 50)"
proof -
  have "Math_round d \<ge> 50" using assms by (rule Math_round_ge_50)
  then show ?thesis by (auto simp: Math_round_minus_50)
qed

lemma lt_duration_longTaskInfo: "lt_duration (longTaskInfo e) = Math_round (lte_duration e)"
  by (simp add: longTaskInfo_def)

lemma resummed_stored: "resummed (stored_tasks es) = blocking_total es"
proof (induction es)
  case Nil
  show ?case by (simp add: resummed_def stored_tasks_def blocking_total_def)
next
  case (Cons e es)
  show ?case
  proof (cases "lte_duration e > 50")
    case True
    then show ?thesis
      by (simp only: stored_tasks_Cons blocking_total_Cons resummed_Cons if_True
            lt_duration_longTaskInfo stored_contribution Cons.IH)
  next
    case False
    then show ?thesis
      by (simp only: stored_tasks_Cons blocking_total_Cons if_False Cons.IH add_0)
  qed
qed

lemma foldl_resum:
  "foldl (\<lambda>tbt task. if lt_duration task > 50 then tbt + (lt_duration task - 50) else tbt) a ts
     = a + resummed ts"
  by (induction ts arbitrary: a) (simp_all add: resummed_def)

lemma updateTBT_resummed:
  "longTasks m = Some ts \<Longrightarrow> updateTBT m = m\<lparr>tbt := Some (Math_round (resummed ts))\<rparr>"
  using Math_round_of_int [of 0]
  by (auto simp: updateTBT_eq foldl_resum Let_def resummed_def)

lemma is_integer_sum_list:
  "(\<And>x. x \<in> set xs \<Longrightarrow> is_integer (f x)) \<Longrightarrow> is_integer (\<Sum>x\<leftarrow>xs. f x)"
  by (induction xs) (simp_all add: is_integer_add)

lemma is_integer_blocking_total: "is_integer (blocking_total es)"
  unfolding blocking_total_def by (rule is_integer_sum_list) simp

lemma blocking_total_append: "blocking_total (xs @ ys) = blocking_total xs + blocking_total ys"
  by (simp add: blocking_total_def)

lemma stored_tasks_append: "stored_tasks (xs @ ys) = stored_tasks xs @ stored_tasks ys"
  by (simp add: stored_tasks_def)

lemma blocking_total_integer_durations:
  "(\<And>e. e \<in> set es \<Longrightarrow> is_integer (lte_duration e)) \<Longrightarrow> blocking_total es = stated_tbt es"
proof (induction es)
  case Nil
  show ?case by (simp add: blocking_total_def stated_tbt_def)
next
  case (Cons e es)
  have "Math_round (lte_duration e - 50) = lte_duration e - 50"
    using Cons.prems [of e] by (simp add: Math_round_minus_50 is_integer_Math_round_id)
  moreover have "blocking_total es = stated_tbt es"
    using Cons by simp
  ultimately show ?case by (simp add: blocking_total_def stated_tbt_def)
qed

text \<open>What the other operations leave alone.\<close>

lemma fcp_fold_keeps:
  "longTasks (foldl (\<lambda>m entry. fcp_entry entry m) m es) = longTasks m \<and>
   tbt (foldl (\<lambda>m entry. fcp_entry entry m) m es) = tbt m"
  by (induction es arbitrary: m) (simp_all add: fcp_entry_def)

lemma fid_fold_keeps:
  "longTasks (foldl (\<lambda>m entry. fid_entry entry m) m es) = longTasks m \<and>
   tbt (foldl (\<lambda>m entry. fid_entry entry m) m es) = tbt m"
  by (induction es arbitrary: m) (simp_all add: fid_entry_eq)

lemma lcp_callback_keeps:
  "longTasks (observeLCP_callback es m) = longTasks m \<and> tbt (observeLCP_callback es m) = tbt m"
  by (simp add: observeLCP_callback_policy)

lemma collectFinalLCP_keeps:
  "longTasks (collectFinalLCP h m) = longTasks m \<and> tbt (collectFinalLCP h m) = tbt m"
  by (cases "hasGetEntriesByType h"; cases "lcpEntries h")
     (simp_all add: collectFinalLCP_callback lcp_callback_keeps, simp_all add: collectFinalLCP_def)

lemma navigation_keeps:
  "longTasks (collectNavigationTiming h m) = longTasks m \<and>
   tbt (collectNavigationTiming h m) = tbt m"
  by (simp add: collectNavigationTiming_eq collectNavigationTimingLegacy_eq
           split: option.splits list.splits)

lemma collect_keeps:
  "longTasks (fst (collect h c)) = longTasks (metrics c) \<and>
   tbt (fst (collect h c)) = tbt (metrics c) \<and>
   longTasks (metrics (snd (collect h c))) = longTasks (metrics c) \<and>
   tbt (metrics (snd (collect h c))) = tbt (metrics c) \<and>
   initialized (snd (collect h c)) = initialized c \<and>
   longTaskObserver (snd (collect h c)) = longTaskObserver c"
  by (simp add: collect_eq Let_def collectFinalLCP_keeps navigation_keeps)

lemma observers_keep:
  "longTasks (metrics (observeCLS h (observeFID h (observeLCP h (observeFCP h c)))))
     = longTasks (metrics c) \<and>
   tbt (metrics (observeCLS h (observeFID h (observeLCP h (observeFCP h c))))) = tbt (metrics c)"
  by (simp add: observeCLS_def observeFID_def observeLCP_def observeFCP_def Let_def fcp_fold_keeps)

lemma tbt_inv_step:
  assumes "tbt_inv c obs" and "e \<noteq> Destroy"
  shows "tbt_inv (step c e) (obs @ delivered e)"
proof (cases e)
  case (LongTaskObserved es)
  from assms(1) have lt: "longTasks (metrics c) = Some (stored_tasks obs)"
    and t: "tbt (metrics c) = Some (blocking_total obs)"
    and o: "longTaskObserver c" and i: "initialized c"
    by (simp_all add: tbt_inv_def)
  from tbt_callback_effect [OF lt t, of es] o i LongTaskObserved show ?thesis
    by (simp add: tbt_inv_def stored_tasks_append blocking_total_append)
next
  case (Init h)
  with assms(1) show ?thesis by (simp add: tbt_inv_def init_eq)
next
  case (Collect h)
  with assms(1) show ?thesis by (simp add: tbt_inv_def collect_keeps)
next
  case Destroy
  with assms(2) show ?thesis by simp
next
  case (PaintObserved es)
  with assms(1) show ?thesis by (simp add: tbt_inv_def observeFCP_callback_def fcp_fold_keeps)
next
  case (LCPObserved es)
  with assms(1) show ?thesis by (simp add: tbt_inv_def lcp_callback_keeps)
next
  case (FirstInputObserved es)
  with assms(1) show ?thesis by (simp add: tbt_inv_def observeFID_callback_eq fid_fold_keeps)
next
  case (LayoutShiftObserved es)
  with assms(1) show ?thesis by (simp add: tbt_inv_def observeCLS_callback_eq Let_def)
qed

lemma tbt_inv_run:
  "tbt_inv c obs \<Longrightarrow> Destroy \<notin> set es \<Longrightarrow> tbt_inv (run c es) (obs @ observed_long_tasks es)"
proof (induction es arbitrary: c obs)
  case Nil
  then show ?case by (simp add: run_eq observed_long_tasks_def)
next
  case (Cons e es)
  from Cons.prems have "tbt_inv (step c e) (obs @ delivered e)"
    by (intro tbt_inv_step) auto
  from Cons.IH [OF this] Cons.prems(2) show ?case
    by (simp add: run_eq observed_long_tasks_def)
qed

lemma tbt_inv_init:
  assumes "hasPerformanceObserver h" and "supportsType h ''longtask''"
  shows "tbt_inv (init h new_collector) []"
proof -
  let ?c = "observeCLS h (observeFID h (observeLCP h (observeFCP h new_collector)))"
  have "longTasks (metrics ?c) = None" "tbt (metrics ?c) = None"
    using observers_keep [of h new_collector]
    by (simp_all add: new_collector_def empty_metrics_def)
  then have "longTasks (metrics (observeTBT h ?c)) = Some [] \<and>
             tbt (metrics (observeTBT h ?c)) = Some 0 \<and> longTaskObserver (observeTBT h ?c)"
    using assms by (simp add: observeTBT_eq Let_def updateTBT_eq)
  then show ?thesis
    by (simp add: tbt_inv_def init_eq collectWebVitals_eq new_collector_def
          stored_tasks_def blocking_total_def)
qed

text \<open>
  Claim C1, as the code has it. Let the collector be initialised on a page that has
  performance observers and accepts the long-task type, and let any events follow except
  \<open>destroy\<close>. Then the \<open>tbt\<close> that \<open>collect\<close> returns is the sum, over the delivered
  long-task observations with duration above 50, of the duration minus 50 rounded to the
  nearest integer. \<open>collect\<close> returns this stored total as it is; resumming the stored
  tasks' contributions (\<open>updateTBT\<close>) would give the same value, and a second \<open>collect\<close>
  returns the same \<open>tbt\<close>. When all durations are whole numbers the total is the sum of
  the durations minus 50 that the claim states.
\<close>

theorem tbt_total:
  assumes "hasPerformanceObserver h" and "supportsType h ''longtask''"
      and "Destroy \<notin> set events"
  shows "tbt (fst (collect h' (run (init h new_collector) events)))
           = Some (blocking_total (observed_long_tasks events)) \<and>
         updateTBT (fst (collect h' (run (init h new_collector) events)))
           = fst (collect h' (run (init h new_collector) events)) \<and>
         tbt (fst (collect h'' (snd (collect h' (run (init h new_collector) events)))))
           = tbt (fst (collect h' (run (init h new_collector) events))) \<and>
         (list_all (\<lambda>e. is_integer (lte_duration e)) (observed_long_tasks events) \<longrightarrow>
          tbt (fst (collect h' (run (init h new_collector) events)))
            = Some (stated_tbt (observed_long_tasks events)))"
proof -
  let ?c = "run (init h new_collector) events"
  let ?obs = "observed_long_tasks events"
  have inv: "tbt_inv ?c ?obs"
    using tbt_inv_run [OF tbt_inv_init [OF assms(1,2)] assms(3)] by simp
  then have lt: "longTasks (fst (collect h' ?c)) = Some (stored_tasks ?obs)"
    and t: "tbt (fst (collect h' ?c)) = Some (blocking_total ?obs)"
    by (simp_all add: tbt_inv_def collect_keeps)
  have u: "updateTBT (fst (collect h' ?c)) = fst (collect h' ?c)"
    using t by (simp add: updateTBT_resummed [OF lt] resummed_stored
                  is_integer_Math_round_id is_integer_blocking_total)
  have i: "tbt (fst (collect h'' (snd (collect h' ?c)))) = tbt (fst (collect h' ?c))"
    by (simp add: collect_keeps)
  have s: "list_all (\<lambda>e. is_integer (lte_duration e)) ?obs \<longrightarrow>
        tbt (fst (collect h' ?c)) = Some (stated_tbt ?obs)"
    using t blocking_total_integer_durations [of ?obs] by (simp add: list_all_iff)
  from t u i s show ?thesis by blast
qed

text \<open>
  The total on a run: tasks of 50.6, 120 and 30 in one batch, a \<open>collect\<close>, then a task of
  51. The contributions are 1, 70 and 1. On the whole-number part of the run, the tasks of
  120, 30 and 51, the total is the stated sum, 71.
\<close>

theorem tbt_total_witness:
  "hasPerformanceObserver full_host \<and> supportsType full_host ''longtask'' \<and>
   Destroy \<notin> set [LongTaskObserved [long_task 0 (253/5), long_task 200 120, long_task 400 30],
                   Collect full_host, LongTaskObserved [long_task 600 51]] \<and>
   tbt (fst (collect full_host (run (init full_host new_collector)
          [LongTaskObserved [long_task 0 (253/5), long_task 200 120, long_task 400 30],
           Collect full_host, LongTaskObserved [long_task 600 51]]))) = Some 72 \<and>
   Destroy \<notin> set [LongTaskObserved [long_task 200 120, long_task 400 30],
                   Collect full_host, LongTaskObserved [long_task 600 51]] \<and>
   list_all (\<lambda>e. is_integer (lte_duration e))
     (observed_long_tasks [LongTaskObserved [long_task 200 120, long_task 400 30],
                           Collect full_host, LongTaskObserved [long_task 600 51]]) \<and>
   tbt (fst (collect full_host (run (init full_host new_collector)
          [LongTaskObserved [long_task 200 120, long_task 400 30],
           Collect full_host, LongTaskObserved [long_task 600 51]]))) = Some 71"
proof -
  let ?evs = "[LongTaskObserved [long_task 0 (253/5), long_task 200 120, long_task 400 30],
               Collect full_host, LongTaskObserved [long_task 600 51]]"
  let ?ints = "[LongTaskObserved [long_task 200 120, long_task 400 30],
                Collect full_host, LongTaskObserved [long_task 600 51]]"
  have h: "hasPerformanceObserver full_host" "supportsType full_host ''longtask''"
    by (simp_all add: full_host_def)
  have d: "Destroy \<notin> set ?evs" and d': "Destroy \<notin> set ?ints" by simp_all
  have b: "blocking_total (observed_long_tasks ?evs) = 72"
    by code_simp
  have w: "list_all (\<lambda>e. is_integer (lte_duration e)) (observed_long_tasks ?ints)"
    by code_simp
  have s: "stated_tbt (observed_long_tasks ?ints) = 71"
    by code_simp
  have one: "tbt (fst (collect full_host (run (init full_host new_collector) ?evs))) = Some 72"
    using tbt_total [OF h d, of full_host, THEN conjunct1] b by simp
  from tbt_total [OF h d', of full_host full_host] w
  have "tbt (fst (collect full_host (run (init full_host new_collector) ?ints)))
          = Some (stated_tbt (observed_long_tasks ?ints))"
    by blast
  then have two: "tbt (fst (collect full_host (run (init full_host new_collector) ?ints))) = Some 71"
    by (simp only: s)
  from h d d' w one two show ?thesis
    by (simp only: simp_thms)
qed

text \<open>
  One observed task of 50.6: the claim's sum is 0.6, the \<open>tbt\<close> that \<open>collect\<close> returns is 1.
\<close>

theorem tbt_total_counterexample:
  "stated_tbt [long_task 0 (253/5)] = 3/5 \<and>
   tbt (fst (collect full_host
          (run (init full_host new_collector) [LongTaskObserved [long_task 0 (253/5)]]))) = Some 1"
  by code_simp

text \<open>
  The two runs in the engine's arithmetic, the first duration being the double nearest to
  50.6: the totals are the same.
\<close>

lemma tbt_examples_binary64:
  "tbt (fst (collect_fl binary64 full_host (run_fl binary64 (init_fl binary64 full_host new_collector)
          [LongTaskObserved [long_task 0 (binary64 (253/5)), long_task 200 120, long_task 400 30],
           Collect full_host, LongTaskObserved [long_task 600 51]]))) = Some 72 \<and>
   tbt (fst (collect_fl binary64 full_host (run_fl binary64 (init_fl binary64 full_host new_collector)
          [LongTaskObserved [long_task 0 (binary64 (253/5))]]))) = Some 1"
  by code_simp

text \<open>The stored tasks: what every operation keeps.\<close>

lemma long_enough_stored: "list_all (\<lambda>t. lt_duration t \<ge> 50) (stored_tasks es)"
proof (induction es)
  case Nil
  show ?case by (simp add: stored_tasks_def)
next
  case (Cons e es)
  then show ?case
    by (simp add: stored_tasks_Cons lt_duration_longTaskInfo Math_round_ge_50)
qed

lemma long_enough_callback: "long_enough m \<Longrightarrow> long_enough (observeTBT_callback es m)"
proof (cases "longTasks m")
  case None
  then show ?thesis by (simp add: long_enough_def longTasks_callback_None)
next
  case (Some ts)
  assume "long_enough m"
  with Some show ?thesis
    by (simp add: long_enough_def longTasks_callback [OF Some] long_enough_stored)
qed

lemma long_enough_updateTBT: "long_enough m \<Longrightarrow> long_enough (updateTBT m)"
  by (auto simp: long_enough_def updateTBT_eq Let_def split: option.splits)

lemma long_enough_observeTBT:
  "long_enough (metrics c) \<Longrightarrow> long_enough (metrics (observeTBT h c))"
  by (auto simp: observeTBT_eq Let_def long_enough_def updateTBT_eq split: option.splits)

lemma long_enough_init: "long_enough (metrics c) \<Longrightarrow> long_enough (metrics (init h c))"
proof -
  assume a: "long_enough (metrics c)"
  let ?c = "observeCLS h (observeFID h (observeLCP h (observeFCP h c)))"
  have "long_enough (metrics ?c)"
    using a observers_keep [of h c] by (simp add: long_enough_def)
  then have "long_enough (metrics (observeTBT h ?c))"
    by (rule long_enough_observeTBT)
  with a show ?thesis
    by (simp add: init_eq collectWebVitals_eq)
qed

lemma long_enough_step: "long_enough (metrics c) \<Longrightarrow> long_enough (metrics (step c e))"
proof (cases e)
  case (Init h)
  assume "long_enough (metrics c)"
  with Init show ?thesis by (simp add: long_enough_init)
next
  case (Collect h)
  assume "long_enough (metrics c)"
  with Collect show ?thesis by (simp add: long_enough_def collect_keeps)
next
  case Destroy
  assume "long_enough (metrics c)"
  with Destroy show ?thesis by (simp add: destroy_def)
next
  case (PaintObserved es)
  assume "long_enough (metrics c)"
  with PaintObserved show ?thesis
    by (simp add: long_enough_def observeFCP_callback_def fcp_fold_keeps)
next
  case (LCPObserved es)
  assume "long_enough (metrics c)"
  with LCPObserved show ?thesis by (simp add: long_enough_def lcp_callback_keeps)
next
  case (FirstInputObserved es)
  assume "long_enough (metrics c)"
  with FirstInputObserved show ?thesis
    by (simp add: long_enough_def observeFID_callback_eq fid_fold_keeps)
next
  case (LayoutShiftObserved es)
  assume "long_enough (metrics c)"
  with LayoutShiftObserved show ?thesis
    by (simp add: long_enough_def observeCLS_callback_eq Let_def)
next
  case (LongTaskObserved es)
  assume "long_enough (metrics c)"
  with LongTaskObserved show ?thesis by (simp add: long_enough_callback)
qed

lemma long_enough_run: "long_enough (metrics c) \<Longrightarrow> long_enough (metrics (run c es))"
  unfolding run_eq by (induction es arbitrary: c) (simp_all add: long_enough_step)

text \<open>
  Claim C9, as the code has it. The long-task callback appends one record for each
  observation of its batch whose raw duration exceeds 50, in order, and none for the
  others. The stored duration is the raw duration rounded to the nearest integer, so
  every record stored in the metric set, after any events, has a duration of at least 50.
\<close>

theorem long_task_durations:
  "long_enough (metrics (run new_collector events)) \<and>
   (longTasks m = Some tasks \<longrightarrow>
      longTasks (observeTBT_callback entries m)
        = Some (tasks @ map longTaskInfo (filter (\<lambda>e. lte_duration e > 50) entries))) \<and>
   lt_duration (longTaskInfo e) = Math_round (lte_duration e) \<and>
   (lte_duration e > 50 \<longrightarrow> lt_duration (longTaskInfo e) \<ge> 50)"
proof -
  have "long_enough (metrics new_collector)"
    by (simp add: long_enough_def new_collector_def empty_metrics_def)
  then have "long_enough (metrics (run new_collector events))"
    by (rule long_enough_run)
  moreover have "longTasks m = Some tasks \<longrightarrow>
      longTasks (observeTBT_callback entries m)
        = Some (tasks @ map longTaskInfo (filter (\<lambda>e. lte_duration e > 50) entries))"
    using longTasks_callback [of m tasks entries] by (simp add: stored_tasks_def)
  ultimately show ?thesis
    by (simp add: lt_duration_longTaskInfo Math_round_ge_50)
qed

text \<open>
  The rule on a batch of three observations, of 120.4, 50 and 50.5: the first and the
  third are stored, with durations 120 and 51.
\<close>

theorem long_task_durations_witness:
  "longTasks (empty_metrics\<lparr>longTasks := Some []\<rparr>) = Some [] \<and>
   map lt_duration (the (longTasks (observeTBT_callback
      [long_task 0 (602/5), long_task 200 50, long_task 400 (101/2)]
      (empty_metrics\<lparr>longTasks := Some []\<rparr>)))) = [120, 51] \<and>
   long_enough (metrics (run new_collector
      [Init full_host, LongTaskObserved [long_task 0 (602/5), long_task 200 50]]))"
proof -
  let ?m = "empty_metrics\<lparr>longTasks := Some []\<rparr>"
  let ?es = "[long_task 0 (602/5), long_task 200 50, long_task 400 (101/2)]"
  have s: "longTasks ?m = Some []" by simp
  have v: "map lt_duration (map longTaskInfo (filter (\<lambda>e. lte_duration e > 50) ?es)) = [120, 51]"
    by code_simp
  note t = long_task_durations [of "[Init full_host, LongTaskObserved [long_task 0 (602/5), long_task 200 50]]"
             ?m "[]" ?es]
  from t have "longTasks ?m = Some [] \<longrightarrow>
      longTasks (observeTBT_callback ?es ?m)
        = Some ([] @ map longTaskInfo (filter (\<lambda>e. lte_duration e > 50) ?es))"
    by blast
  with s have "longTasks (observeTBT_callback ?es ?m)
        = Some (map longTaskInfo (filter (\<lambda>e. lte_duration e > 50) ?es))"
    by simp
  with v t s show ?thesis by simp
qed

text \<open>
  An observation of 50.4 exceeds 50 and is stored, with duration 50: not strictly more
  than 50.
\<close>

theorem long_task_duration_counterexample:
  "map lt_duration (the (longTasks (metrics
      (run new_collector [Init full_host, LongTaskObserved [long_task 0 (252/5)]])))) = [50]"
  by code_simp

text \<open>The same observation in the engine's arithmetic, 50.4 being the double nearest to it.\<close>

lemma long_task_duration_binary64:
  "map lt_duration (the (longTasks (metrics
      (run_fl binary64 new_collector
         [Init full_host, LongTaskObserved [long_task 0 (binary64 (252/5))]])))) = [50]"
  by code_simp

subsection \<open>Every stored value is rounded\<close>













































subsection \<open>The cap on reflow records\<close>

lemma width_triggers: "isReflowTriggeringAttribute (Some ''width'')"
  by code_simp

lemma monitor_run_snoc: "monitor_run mon (es @ [e]) = monitor_step (monitor_run mon es) e"
  by (simp add: monitor_run_def)

lemma width_mutation_step:
  "monitor_step mon (Mutations [width_mutation el] now stack) =
     mon\<lparr>suspiciousElements :=
            map_set (suspiciousElements mon) el (map_get (suspiciousElements mon) el + 1),
         reflows := reflows mon @
           [\<lparr>rf_timestamp = now, rf_duration = 0, rf_element = Some el,
             rf_elementPath = Some (getElementPath (Some el)),
             rf_reason = ''attribute_change:width'', rf_droppedFrames = None,
             rf_stackTrace = getStackTrace stack mon\<rparr>]\<rparr>"
  using width_triggers
  by (simp add: mutation_entry_def width_mutation_def recordReflowFromMutation_def Let_def
        truthy_def getStackTrace_def)

lemma heuristic_attribute_change: "heuristic_reason ''attribute_change:width''"
  by (simp add: heuristic_reason_def)

lemma heuristic_frame_drop: "heuristic_reason ''frame_drop''"
  by (simp add: heuristic_reason_def)

text \<open>Frame-drift records are dropped once the sequence holds 1000 records.\<close>

lemma recordPotentialReflow_at_cap:
  "length (reflows mon) \<ge> 1000 \<Longrightarrow> recordPotentialReflow now stack dt n mon = mon"
  by (simp add: recordPotentialReflow_def)

text \<open>An explicit mark is recorded whatever the length of the sequence.\<close>

lemma markReflow_appends:
  "length (reflows (markReflow stack (Some m) el reason mon)) = Suc (length (reflows mon))"
  by (simp add: markReflow_def)

text \<open>So is a record of an attribute change.\<close>

lemma recordReflowFromMutation_appends:
  "length (reflows (recordReflowFromMutation now stack el attr mon)) = Suc (length (reflows mon))"
  by (simp add: recordReflowFromMutation_def)

lemma frame_drop_fold_heuristic:
  "length (heuristic_reflows (foldl (\<lambda>mon (el, count).
                    mon\<lparr>reflows := reflows mon @
                      [\<lparr>rf_timestamp = now, rf_duration = deltaTime, rf_element = Some el,
                        rf_elementPath = Some (getElementPath (Some el)),
                        rf_reason = ''frame_drop'', rf_droppedFrames = Some dropped,
                        rf_stackTrace = getStackTrace stack mon\<rparr>]\<rparr>) mon xs))
    = length (heuristic_reflows mon) + length xs"
  by (induction xs arbitrary: mon)
     (simp_all add: case_prod_beta heuristic_reflows_def heuristic_frame_drop)

lemma length_sort_desc: "length (sort_desc xs) = length xs"
proof -
  have "length (insert_desc x ys) = Suc (length ys)" for x :: "'a \<times> nat" and ys
    by (induction ys) simp_all
  then show ?thesis unfolding sort_desc_def by (induction xs) simp_all
qed

text \<open>Below the cap, one frame adds a record for each of up to five suspicious elements.\<close>

lemma recordPotentialReflow_heuristic:
  "length (reflows mon) < 1000 \<Longrightarrow>
   length (heuristic_reflows (recordPotentialReflow now stack dt n mon))
     = length (heuristic_reflows mon) + min 5 (length (suspiciousElements mon))"
  by (simp add: recordPotentialReflow_def Let_def frame_drop_fold_heuristic length_sort_desc min_def)

lemma width_mutations_state:
  "isMonitoring (monitor_run started (replicate n (Mutations [width_mutation el] now stack))) \<and>
   lastTime (monitor_run started (replicate n (Mutations [width_mutation el] now stack))) = 0 \<and>
   droppedFrames (monitor_run started (replicate n (Mutations [width_mutation el] now stack))) = 0 \<and>
   suspiciousElements (monitor_run started (replicate n (Mutations [width_mutation el] now stack)))
     = (if n = 0 then [] else [(el, n)]) \<and>
   length (reflows (monitor_run started (replicate n (Mutations [width_mutation el] now stack)))) = n \<and>
   length (heuristic_reflows
             (monitor_run started (replicate n (Mutations [width_mutation el] now stack)))) = n"
proof (induction n)
  case 0
  show ?case
    by (simp add: monitor_run_def started_def start_def new_monitor_def heuristic_reflows_def)
next
  case (Suc n)
  have "replicate (Suc n) (Mutations [width_mutation el] now stack)
          = replicate n (Mutations [width_mutation el] now stack) @
            [Mutations [width_mutation el] now stack]"
    by (simp add: replicate_append_same)
  then show ?case
    using Suc
    by (simp only: monitor_run_snoc width_mutation_step)
       (simp add: heuristic_reflows_def heuristic_attribute_change)
qed

lemma frame_after_mutations:
  "length (heuristic_reflows
     (monitor_run started
        (replicate 999 (Mutations [width_mutation (item 0)] 0 []) @
         [Mutations [child_mutation (item 1), child_mutation (item 2),
                     child_mutation (item 3), child_mutation (item 4)] 0 [],
          Frame 100 100 []]))) = 1004"
proof -
  let ?m = "monitor_run started (replicate 999 (Mutations [width_mutation (item 0)] 0 []))"
  let ?m' = "monitor_step ?m (Mutations [child_mutation (item 1), child_mutation (item 2),
                     child_mutation (item 3), child_mutation (item 4)] 0 [])"
  note st = width_mutations_state [of 999 "item 0" 0 "[]"]
  have susp: "suspiciousElements ?m' =
                [(item 0, 999), (item 1, 1), (item 2, 1), (item 3, 1), (item 4, 1)]"
    and keep: "reflows ?m' = reflows ?m" "isMonitoring ?m'" "lastTime ?m' = 0" "droppedFrames ?m' = 0"
    using st by (simp_all add: mutation_entry_def child_mutation_def item_def Let_def)
  have fl: "\<lfloor>(100 - 1667 / 100) / (1667 / 100) :: rat\<rfloor> = 4"
    by (rule floor_unique) simp_all
  have "monitor_step ?m' (Frame 100 100 []) =
          (recordPotentialReflow 100 [] 100 4
             (?m'\<lparr>frameCount := frameCount ?m' + 1, droppedFrames := 4\<rparr>))\<lparr>lastTime := 100\<rparr>"
    using keep fl by (simp add: checkFrame_def Let_def)
  moreover have "length (heuristic_reflows
                   (recordPotentialReflow 100 [] 100 4
                      (?m'\<lparr>frameCount := frameCount ?m' + 1, droppedFrames := 4\<rparr>)))
                 = 999 + 5"
    using st keep susp
    by (subst recordPotentialReflow_heuristic) (simp_all add: heuristic_reflows_def)
  ultimately have "length (heuristic_reflows (monitor_step ?m' (Frame 100 100 []))) = 1004"
    by (simp add: heuristic_reflows_def)
  then show ?thesis
    by (simp add: monitor_run_def)
qed

text \<open>
  Claim C3 says that the records of the two heuristic sources never number more than
  1000. Two runs of a started monitor on which they do. After 1001 changes of the
  \<open>width\<close> attribute the sequence holds 1001 records tagged \<open>attribute_change:width\<close>:
  \<open>recordReflowFromMutation\<close> never looks at the length. After 999 such changes, child-list
  mutations on four more elements and one frame of 100 units, the sequence holds 1004
  heuristic records: \<open>recordPotentialReflow\<close> tests the cap once, before it records up to
  five elements.
\<close>

theorem reflow_cap_exceeded:
  "length (heuristic_reflows
     (monitor_run started (replicate 1001 (Mutations [width_mutation (item 0)] 0 [])))) = 1001 \<and>
   length (heuristic_reflows
     (monitor_run started
        (replicate 999 (Mutations [width_mutation (item 0)] 0 []) @
         [Mutations [child_mutation (item 1), child_mutation (item 2),
                     child_mutation (item 3), child_mutation (item 4)] 0 [],
          Frame 100 100 []]))) = 1004"
  using width_mutations_state [of 1001 "item 0" 0 "[]"] frame_after_mutations
  by simp

subsection \<open>GPU-acceleration classification\<close>











subsection \<open>Reporter: batched and immediate mode\<close>

lemma send_effect:
  "fst (send page payload w) = fst w \<and>
   (\<exists>t. snd (send page payload w) = snd w @ [t] \<and> transmitted t = [payload])"
  by (simp add: send_def Let_def)

lemma send_transmissions:
  "transmissions (snd (send page payload w)) = transmissions (snd w) @ [payload]"
  by (simp add: send_def Let_def transmissions_def)

lemma report_batched:
  "\<not> immediate (fst w) \<Longrightarrow>
   report page d w = ((fst w)\<lparr>queue := queue (fst w) @ [stamp page (fst w) d]\<rparr>, snd w)"
  by (simp add: report_def Let_def)

lemma report_immediate:
  "immediate (fst w) \<Longrightarrow>
   fst (report page d w) = fst w \<and>
   (\<exists>t. snd (report page d w) = snd w @ [t] \<and> transmitted t = [[stamp page (fst w) d]])"
  by (simp add: report_def Let_def send_effect)

lemma stamp_fields:
  "rd_type (stamp page r d) = report_type d \<and> rd_data (stamp page r d) = report_data d \<and>
   rd_timestamp (stamp page r d) = date_now page \<and> rd_url (stamp page r d) = location_href page \<and>
   rd_userAgent (stamp page r d) = navigator_userAgent page \<and>
   rd_appId (stamp page r d) = appId r \<and> rd_userId (stamp page r d) = userId r"
  by (simp add: stamp_def)

lemma reports_accumulate:
  "\<not> immediate r \<Longrightarrow> list_all is_report events \<Longrightarrow>
   reporter_run (r, out) events = (r\<lparr>queue := queue r @ concat (map (stamped r) events)\<rparr>, out)"
proof (induction events arbitrary: r)
  case Nil
  show ?case by (simp add: reporter_run_def)
next
  case (Cons e events)
  from Cons.prems(2) obtain page d where e: "e = ReportCalled page d"
    by (cases e) (simp_all add: is_report_def)
  let ?r = "r\<lparr>queue := queue r @ [stamp page r d]\<rparr>"
  have step: "reporter_step (r, out) e = (?r, out)"
    using Cons.prems(1) e by (simp add: report_batched)
  have st: "stamped ?r = stamped r"
  proof
    fix ev :: "'a ReporterEvent"
    show "stamped ?r ev = stamped r ev" by (cases ev) (simp_all add: stamp_def)
  qed
  have "reporter_run (?r, out) events =
          (?r\<lparr>queue := queue ?r @ concat (map (stamped ?r) events)\<rparr>, out)"
    using Cons.prems by (intro Cons.IH) simp_all
  then show ?case
    using step e by (simp add: reporter_run_def st)
qed

lemma new_reporter_default:
  "opt_immediate options = None \<Longrightarrow>
   \<not> immediate (new_reporter options :: 'd Reporter) \<and>
   timer (new_reporter options :: 'd Reporter) \<and>
   queue (new_reporter options :: 'd Reporter) = []"
  by (simp add: new_reporter_def)

lemma interval_flush:
  "timer (fst w) \<Longrightarrow> queue (fst w) \<noteq> [] \<Longrightarrow>
   queue (fst (reporter_step w (IntervalElapsed page))) = [] \<and>
   transmissions (snd (reporter_step w (IntervalElapsed page)))
     = transmissions (snd w) @ [queue (fst w)]"
  by (simp add: batchReport_def Let_def send_transmissions) (simp add: send_def Let_def)

lemma destroy_flush:
  "queue (fst w) \<noteq> [] \<Longrightarrow>
   queue (fst (reporter_step w (DestroyCalled page))) = [] \<and>
   transmissions (snd (reporter_step w (DestroyCalled page)))
     = transmissions (snd w) @ [queue (fst w)]"
  by (simp add: destroy_reporter_def batchReport_def Let_def send_transmissions)
     (simp add: send_def Let_def)

lemma fetch_catch_effect:
  "queue (fst (fetch_catch err payload w)) =
     (if immediate (fst w) then queue (fst w) else queue (fst w) @ payload) \<and>
   snd (fetch_catch err payload w) = snd w @ [ConsoleError err] \<and>
   transmissions (snd (fetch_catch err payload w)) = transmissions (snd w) \<and>
   immediate (fst (fetch_catch err payload w)) = immediate (fst w) \<and>
   timer (fst (fetch_catch err payload w)) = timer (fst w)"
  by (simp add: fetch_catch_def Let_def transmissions_def)

lemma quiet_step:
  assumes "\<not> immediate (fst w)" and "\<not> flushes e"
  shows "transmissions (snd (reporter_step w e)) = transmissions (snd w) \<and>
         \<not> immediate (fst (reporter_step w e))"
proof (cases e)
  case (ReportCalled page d)
  with assms(1) show ?thesis by (simp add: report_batched)
next
  case (FetchFailed err payload)
  with assms(1) show ?thesis by (simp add: fetch_catch_def Let_def transmissions_def)
next
  case (IntervalElapsed page)
  with assms(2) show ?thesis by simp
next
  case (BeforeUnload page)
  with assms(2) show ?thesis by simp
next
  case (DestroyCalled page)
  with assms(2) show ?thesis by simp
qed

lemma quiet_run:
  "\<not> immediate (fst w) \<Longrightarrow> list_all (\<lambda>e. \<not> flushes e) events \<Longrightarrow>
   transmissions (snd (reporter_run w events)) = transmissions (snd w)"
proof (induction events arbitrary: w)
  case Nil
  show ?case by (simp add: reporter_run_def)
next
  case (Cons e events)
  from Cons.prems have s: "transmissions (snd (reporter_step w e)) = transmissions (snd w)"
    and i: "\<not> immediate (fst (reporter_step w e))"
    using quiet_step [of w e] by simp_all
  from Cons.IH [OF i] Cons.prems(2) s show ?case
    by (simp add: reporter_run_def)
qed

lemma unload_effect:
  "queue (fst w) \<noteq> [] \<Longrightarrow> (truthy (reportUrl (fst w)) \<longrightarrow> hasSendBeacon page) \<Longrightarrow>
   fst (reporter_step w (BeforeUnload page)) = fst w \<and>
   transmissions (snd (reporter_step w (BeforeUnload page)))
     = transmissions (snd w) @ [queue (fst w)]"
  by (simp add: beforeunload_def Let_def transmissions_def)

text \<open>
  Claim C7, as the code has it. A reporter built without the \<open>immediate\<close> option is
  batched. The envelope that \<open>report\<close> makes carries the type and data it was given, the
  clock reading as timestamp, the address of the page as url and the user agent of the
  page, with the reporter's application and user ids. In batched mode \<open>report\<close> appends
  that envelope to the queue and produces no output; after any number of \<open>report\<close> calls
  the output is what it was and the queue holds the stamped envelopes in order. Nothing
  is transmitted as long as the interval timer has not fired, \<open>destroy\<close> has not been
  called and the page has not fired \<open>beforeunload\<close>, whatever else happens. The queue is
  transmitted, as one payload, and emptied when the interval timer fires or \<open>destroy\<close> is
  called; and it is transmitted, as one payload, and kept when the page fires
  \<open>beforeunload\<close> (on a page that has \<open>sendBeacon\<close>, or to the console when the reporter
  has no address). In immediate mode \<open>report\<close> leaves the reporter, queue included, as it
  was and adds exactly one output, a transmission whose payload is that one envelope.
\<close>

theorem report_modes:
  "(opt_immediate options = None \<longrightarrow> \<not> immediate (new_reporter options :: 'd Reporter)) \<and>
   rd_type (stamp page r d) = report_type d \<and> rd_data (stamp page r d) = report_data d \<and>
   rd_timestamp (stamp page r d) = date_now page \<and> rd_url (stamp page r d) = location_href page \<and>
   rd_userAgent (stamp page r d) = navigator_userAgent page \<and>
   rd_appId (stamp page r d) = appId r \<and> rd_userId (stamp page r d) = userId r \<and>
   (\<not> immediate r \<longrightarrow>
      report page d (r, out) = (r\<lparr>queue := queue r @ [stamp page r d]\<rparr>, out)) \<and>
   (\<not> immediate r \<and> list_all is_report events \<longrightarrow>
      reporter_run (r, out) events
        = (r\<lparr>queue := queue r @ concat (map (stamped r) events)\<rparr>, out)) \<and>
   (\<not> immediate r \<and> list_all (\<lambda>e. \<not> flushes e) events \<longrightarrow>
      transmissions (snd (reporter_run (r, out) events)) = transmissions out) \<and>
   (timer r \<and> queue r \<noteq> [] \<longrightarrow>
      queue (fst (reporter_step (r, out) (IntervalElapsed page))) = [] \<and>
      transmissions (snd (reporter_step (r, out) (IntervalElapsed page)))
        = transmissions out @ [queue r]) \<and>
   (queue r \<noteq> [] \<longrightarrow>
      queue (fst (reporter_step (r, out) (DestroyCalled page))) = [] \<and>
      transmissions (snd (reporter_step (r, out) (DestroyCalled page)))
        = transmissions out @ [queue r]) \<and>
   (queue r \<noteq> [] \<and> (truthy (reportUrl r) \<longrightarrow> hasSendBeacon page) \<longrightarrow>
      fst (reporter_step (r, out) (BeforeUnload page)) = r \<and>
      transmissions (snd (reporter_step (r, out) (BeforeUnload page)))
        = transmissions out @ [queue r]) \<and>
   (immediate r \<longrightarrow>
      fst (report page d (r, out)) = r \<and>
      (\<exists>t. snd (report page d (r, out)) = out @ [t] \<and> transmitted t = [[stamp page r d]]))"
proof -
  have a: "opt_immediate options = None \<longrightarrow> \<not> immediate (new_reporter options :: 'd Reporter)"
    using new_reporter_default [of options] by blast
  have b: "\<not> immediate r \<longrightarrow>
      report page d (r, out) = (r\<lparr>queue := queue r @ [stamp page r d]\<rparr>, out)"
    using report_batched [of "(r, out)" page d] by simp
  have c: "\<not> immediate r \<and> list_all is_report events \<longrightarrow>
      reporter_run (r, out) events
        = (r\<lparr>queue := queue r @ concat (map (stamped r) events)\<rparr>, out)"
    using reports_accumulate [of r events out] by blast
  have q: "\<not> immediate r \<and> list_all (\<lambda>e. \<not> flushes e) events \<longrightarrow>
      transmissions (snd (reporter_run (r, out) events)) = transmissions out"
    using quiet_run [of "(r, out)" events] by simp
  have e: "timer r \<and> queue r \<noteq> [] \<longrightarrow>
      queue (fst (reporter_step (r, out) (IntervalElapsed page))) = [] \<and>
      transmissions (snd (reporter_step (r, out) (IntervalElapsed page)))
        = transmissions out @ [queue r]"
    using interval_flush [of "(r, out)" page] by simp
  have f: "queue r \<noteq> [] \<longrightarrow>
      queue (fst (reporter_step (r, out) (DestroyCalled page))) = [] \<and>
      transmissions (snd (reporter_step (r, out) (DestroyCalled page)))
        = transmissions out @ [queue r]"
    using destroy_flush [of "(r, out)" page] by simp
  have u: "queue r \<noteq> [] \<and> (truthy (reportUrl r) \<longrightarrow> hasSendBeacon page) \<longrightarrow>
      fst (reporter_step (r, out) (BeforeUnload page)) = r \<and>
      transmissions (snd (reporter_step (r, out) (BeforeUnload page)))
        = transmissions out @ [queue r]"
    using unload_effect [of "(r, out)" page] by simp
  have g: "immediate r \<longrightarrow>
      fst (report page d (r, out)) = r \<and>
      (\<exists>t. snd (report page d (r, out)) = out @ [t] \<and> transmitted t = [[stamp page r d]])"
    using report_immediate [of "(r, out)" page d] by simp
  from a b c q e f u g stamp_fields [of page r d] show ?thesis
    by blast
qed

text \<open>
  Three reports to a batched reporter leave the output empty and three envelopes in the
  queue; a report and a failed transport leave nothing transmitted; with one envelope in
  the queue the timer, \<open>destroy\<close> and \<open>beforeunload\<close> each transmit it, the last one
  keeping it; one report to an immediate reporter transmits one payload of one envelope
  and leaves the queue empty.
\<close>

theorem report_modes_witness:
  "opt_immediate \<lparr>opt_reportUrl = None, opt_appId = None, opt_userId = None,
                  opt_immediate = None, opt_batchInterval = None\<rparr> = None \<and>
   \<not> immediate (new_reporter \<lparr>opt_reportUrl = None, opt_appId = None, opt_userId = None,
                  opt_immediate = None, opt_batchInterval = None\<rparr> :: nat Reporter) \<and>
   \<not> immediate batched_reporter \<and>
   list_all is_report [ReportCalled page0 (perf_report 1), ReportCalled page0 (perf_report 2),
                       ReportCalled page0 (perf_report 3)] \<and>
   snd (reporter_run (batched_reporter, [])
          [ReportCalled page0 (perf_report 1), ReportCalled page0 (perf_report 2),
           ReportCalled page0 (perf_report 3)]) = [] \<and>
   map rd_data (queue (fst (reporter_run (batched_reporter, [])
          [ReportCalled page0 (perf_report 1), ReportCalled page0 (perf_report 2),
           ReportCalled page0 (perf_report 3)]))) = [1, 2, 3] \<and>
   list_all (\<lambda>e. \<not> flushes e)
     [ReportCalled page0 (perf_report 1),
      FetchFailed ''offline'' [stamp page0 batched_reporter (perf_report 9)]] \<and>
   transmissions (snd (reporter_run (batched_reporter, [])
     [ReportCalled page0 (perf_report 1),
      FetchFailed ''offline'' [stamp page0 batched_reporter (perf_report 9)]])) = [] \<and>
   timer (fst (report page0 (perf_report 1) (batched_reporter, []))) \<and>
   queue (fst (report page0 (perf_report 1) (batched_reporter, []))) \<noteq> [] \<and>
   hasSendBeacon beacon_page \<and>
   transmissions (snd (reporter_step (report page0 (perf_report 1) (batched_reporter, []))
                         (IntervalElapsed page0)))
     = [[stamp page0 batched_reporter (perf_report 1)]] \<and>
   transmissions (snd (reporter_step (report page0 (perf_report 1) (batched_reporter, []))
                         (DestroyCalled page0)))
     = [[stamp page0 batched_reporter (perf_report 1)]] \<and>
   transmissions (snd (reporter_step (report page0 (perf_report 1) (batched_reporter, []))
                         (BeforeUnload beacon_page)))
     = [[stamp page0 batched_reporter (perf_report 1)]] \<and>
   queue (fst (reporter_step (report page0 (perf_report 1) (batched_reporter, []))
                 (BeforeUnload beacon_page)))
     = [stamp page0 batched_reporter (perf_report 1)] \<and>
   immediate immediate_reporter \<and>
   queue (fst (report page0 (perf_report 1) (immediate_reporter, []))) = [] \<and>
   transmissions (snd (report page0 (perf_report 1) (immediate_reporter, [])))
     = [[stamp page0 immediate_reporter (perf_report 1)]]"
proof -
  let ?evs = "[ReportCalled page0 (perf_report 1), ReportCalled page0 (perf_report 2),
               ReportCalled page0 (perf_report 3)]"
  let ?quiet = "[ReportCalled page0 (perf_report 1),
                 FetchFailed ''offline'' [stamp page0 batched_reporter (perf_report 9)]]"
  let ?opts = "\<lparr>opt_reportUrl = None, opt_appId = None, opt_userId = None,
                opt_immediate = None, opt_batchInterval = None\<rparr>"
  let ?r1 = "batched_reporter\<lparr>queue := [stamp page0 batched_reporter (perf_report 1)]\<rparr>"
  have nb: "\<not> immediate batched_reporter" and qb: "queue batched_reporter = []"
    by (simp_all add: batched_reporter_def new_reporter_def)
  have im: "immediate immediate_reporter" and qi: "queue immediate_reporter = []"
    by (simp_all add: immediate_reporter_def new_reporter_def)
  have la: "list_all is_report ?evs"
    by (simp add: is_report_def)
  have lq: "list_all (\<lambda>e. \<not> flushes e) ?quiet"
    by simp
  have op: "opt_immediate ?opts = None"
    by simp
  have r1: "report page0 (perf_report 1) (batched_reporter, []) = (?r1, [])"
    using nb qb by (simp add: report_batched)
  have h1: "timer ?r1" "queue ?r1 \<noteq> []" "truthy (reportUrl ?r1) \<longrightarrow> hasSendBeacon beacon_page"
    by (simp_all add: batched_reporter_def new_reporter_def beacon_page_def)
  have hb: "hasSendBeacon beacon_page"
    by (simp add: beacon_page_def)
  have tz: "transmissions ([] :: nat Output list) = []"
    by (simp add: transmissions_def)
  have q1: "queue ?r1 = [stamp page0 batched_reporter (perf_report 1)]"
    by simp
  note t = report_modes [of ?opts page0 batched_reporter "perf_report 1" "[]" ?evs]
  from t nb la
  have run: "reporter_run (batched_reporter, []) ?evs
        = (batched_reporter\<lparr>queue := queue batched_reporter @
             concat (map (stamped batched_reporter) ?evs)\<rparr>, [])"
    by blast
  from t op have df: "\<not> immediate (new_reporter ?opts :: nat Reporter)"
    by blast
  from report_modes [of ?opts page0 batched_reporter "perf_report 1" "[]" ?quiet] nb lq
  have "transmissions (snd (reporter_run (batched_reporter, []) ?quiet)) = transmissions []"
    by blast
  then have quiet: "transmissions (snd (reporter_run (batched_reporter, []) ?quiet)) = []"
    by (simp only: tz)
  from report_modes [of ?opts page0 ?r1 "perf_report 1" "[]" "[]"] h1
  have "transmissions (snd (reporter_step (?r1, []) (IntervalElapsed page0)))
              = transmissions [] @ [queue ?r1]"
       "transmissions (snd (reporter_step (?r1, []) (DestroyCalled page0)))
              = transmissions [] @ [queue ?r1]"
    by blast+
  then have flushed:
       "transmissions (snd (reporter_step (?r1, []) (IntervalElapsed page0)))
              = [[stamp page0 batched_reporter (perf_report 1)]]"
       "transmissions (snd (reporter_step (?r1, []) (DestroyCalled page0)))
              = [[stamp page0 batched_reporter (perf_report 1)]]"
    by (simp_all only: tz q1 append_Nil)
  from report_modes [of ?opts beacon_page ?r1 "perf_report 1" "[]" "[]"] h1
  have ul: "fst (reporter_step (?r1, []) (BeforeUnload beacon_page)) = ?r1"
       "transmissions (snd (reporter_step (?r1, []) (BeforeUnload beacon_page)))
              = transmissions [] @ [queue ?r1]"
    by blast+
  from ul(2) have unloaded:
       "transmissions (snd (reporter_step (?r1, []) (BeforeUnload beacon_page)))
              = [[stamp page0 batched_reporter (perf_report 1)]]"
    by (simp only: tz q1 append_Nil)
  have kept: "queue (fst (reporter_step (?r1, []) (BeforeUnload beacon_page)))
              = [stamp page0 batched_reporter (perf_report 1)]"
    by (simp only: ul(1) q1)
  have iq: "queue (fst (report page0 (perf_report 1) (immediate_reporter, []))) = []"
    if "fst (report page0 (perf_report 1) (immediate_reporter, [])) = immediate_reporter"
    using that qi by simp
  note u = report_modes [of ?opts page0 immediate_reporter "perf_report 1" "[]" "[]"]
  from u im obtain x where
    x: "fst (report page0 (perf_report 1) (immediate_reporter, [])) = immediate_reporter"
       "snd (report page0 (perf_report 1) (immediate_reporter, [])) = [] @ [x]"
       "transmitted x = [[stamp page0 immediate_reporter (perf_report 1)]]"
    by blast
  from x have tr: "transmissions (snd (report page0 (perf_report 1) (immediate_reporter, [])))
     = [[stamp page0 immediate_reporter (perf_report 1)]]"
    by (simp add: transmissions_def)
  from run qb have "snd (reporter_run (batched_reporter, []) ?evs) = []"
    and "map rd_data (queue (fst (reporter_run (batched_reporter, []) ?evs))) = [1, 2, 3]"
    by (simp_all add: stamp_def perf_report_def)
  with nb la lq op df quiet h1(1,2) hb flushed unloaded kept im iq [OF x(1)] tr show ?thesis
    by (simp only: r1 fst_conv simp_thms)
qed

text \<open>
  A report to a batched reporter, then \<open>beforeunload\<close> on a page that has \<open>sendBeacon\<close>:
  the timer has not fired and \<open>destroy\<close> has not been called, and the envelope has been
  transmitted; it is still in the queue.
\<close>

theorem report_unload_counterexample:
  "\<not> immediate batched_reporter \<and>
   transmissions (snd (reporter_run (batched_reporter, [])
       [ReportCalled beacon_page (perf_report 1), BeforeUnload beacon_page]))
     = [[stamp beacon_page batched_reporter (perf_report 1)]] \<and>
   queue (fst (reporter_run (batched_reporter, [])
       [ReportCalled beacon_page (perf_report 1), BeforeUnload beacon_page]))
     = [stamp beacon_page batched_reporter (perf_report 1)]"
  by (simp add: reporter_run_def report_def beforeunload_def batched_reporter_def
        new_reporter_def beacon_page_def page0_def transmissions_def truthy_def Let_def)

subsection \<open>Reporter: a failed fallback transport\<close>

text \<open>
  Claim C8. \<open>report\<close> and \<open>batchReport\<close> hand the payload to the keep-alive \<open>fetch\<close> and
  return; the failure of that call reaches the reporter later, in the handler attached
  with \<open>catch\<close>, whose only effects are a line on the error console and, in batched mode,
  the return of the failed envelopes to the end of the queue. In batched mode the next
  firing of the interval timer transmits them again, together with what was queued in
  between; in immediate mode the queue is as it was, so they are dropped. The handler
  transmits nothing itself and has no failing outcome: its result is a reporter state.
\<close>

theorem fetch_failure_requeue:
  "(\<not> immediate r \<longrightarrow> queue (fst (fetch_catch err payload (r, out))) = queue r @ payload) \<and>
   (immediate r \<longrightarrow> queue (fst (fetch_catch err payload (r, out))) = queue r) \<and>
   snd (fetch_catch err payload (r, out)) = out @ [ConsoleError err] \<and>
   transmissions (snd (fetch_catch err payload (r, out))) = transmissions out \<and>
   (\<not> immediate r \<and> timer r \<and> payload \<noteq> [] \<longrightarrow>
      transmissions (snd (reporter_step (fetch_catch err payload (r, out)) (IntervalElapsed page)))
        = transmissions out @ [queue r @ payload] \<and>
      queue (fst (reporter_step (fetch_catch err payload (r, out)) (IntervalElapsed page))) = []) \<and>
   (truthy (reportUrl r) \<and> \<not> hasSendBeacon page \<and> immediate r \<longrightarrow>
      reporter_step (report page d (r, out)) (FetchFailed err [stamp page r d])
        = (r, out @ [Fetch (the (reportUrl r)) [stamp page r d], ConsoleError err]))"
proof -
  note fc = fetch_catch_effect [of err payload "(r, out)"]
  have retry: "\<not> immediate r \<and> timer r \<and> payload \<noteq> [] \<longrightarrow>
      transmissions (snd (reporter_step (fetch_catch err payload (r, out)) (IntervalElapsed page)))
        = transmissions out @ [queue r @ payload] \<and>
      queue (fst (reporter_step (fetch_catch err payload (r, out)) (IntervalElapsed page))) = []"
  proof
    assume h: "\<not> immediate r \<and> timer r \<and> payload \<noteq> []"
    have "timer (fst (fetch_catch err payload (r, out)))"
      and "queue (fst (fetch_catch err payload (r, out))) \<noteq> []"
      using fc h by simp_all
    from interval_flush [OF this, of page] fc h
    show "transmissions (snd (reporter_step (fetch_catch err payload (r, out)) (IntervalElapsed page)))
        = transmissions out @ [queue r @ payload] \<and>
      queue (fst (reporter_step (fetch_catch err payload (r, out)) (IntervalElapsed page))) = []"
      by (simp add: transmissions_def)
  qed
  have drop: "truthy (reportUrl r) \<and> \<not> hasSendBeacon page \<and> immediate r \<longrightarrow>
      reporter_step (report page d (r, out)) (FetchFailed err [stamp page r d])
        = (r, out @ [Fetch (the (reportUrl r)) [stamp page r d], ConsoleError err])"
    by (simp add: report_def send_def fetch_catch_def Let_def)
  from fc retry drop show ?thesis
    by (simp add: transmissions_def)
qed

text \<open>
  With no \<open>sendBeacon\<close> on the page, a batched reporter flushes two envelopes with \<open>fetch\<close>;
  the call fails; the envelopes are back in the queue and the next flush sends them again.
  An immediate reporter whose \<open>fetch\<close> fails keeps an empty queue.
\<close>

theorem fetch_failure_requeue_witness:
  "\<not> immediate batched_reporter \<and> timer batched_reporter \<and>
   map rd_data (queue (fst (reporter_run (batched_reporter, [])
      [ReportCalled page0 (perf_report 1), ReportCalled page0 (perf_report 2),
       IntervalElapsed page0,
       FetchFailed ''offline'' [stamp page0 batched_reporter (perf_report 1),
                                stamp page0 batched_reporter (perf_report 2)]]))) = [1, 2] \<and>
   map (map rd_data) (transmissions (snd (reporter_run (batched_reporter, [])
      [ReportCalled page0 (perf_report 1), ReportCalled page0 (perf_report 2),
       IntervalElapsed page0,
       FetchFailed ''offline'' [stamp page0 batched_reporter (perf_report 1),
                                stamp page0 batched_reporter (perf_report 2)],
       IntervalElapsed page0]))) = [[1, 2], [1, 2]] \<and>
   immediate immediate_reporter \<and>
   queue (fst (fetch_catch ''offline'' [stamp page0 immediate_reporter (perf_report 1)]
                 (immediate_reporter, []))) = []"
proof -
  have nb: "\<not> immediate batched_reporter" "timer batched_reporter"
    by (simp_all add: batched_reporter_def new_reporter_def)
  have im: "immediate immediate_reporter" and qi: "queue immediate_reporter = []"
    by (simp_all add: immediate_reporter_def new_reporter_def)
  have v: "map rd_data (queue (fst (reporter_run (batched_reporter, [])
      [ReportCalled page0 (perf_report 1), ReportCalled page0 (perf_report 2),
       IntervalElapsed page0,
       FetchFailed ''offline'' [stamp page0 batched_reporter (perf_report 1),
                                stamp page0 batched_reporter (perf_report 2)]]))) = [1, 2]"
    "map (map rd_data) (transmissions (snd (reporter_run (batched_reporter, [])
      [ReportCalled page0 (perf_report 1), ReportCalled page0 (perf_report 2),
       IntervalElapsed page0,
       FetchFailed ''offline'' [stamp page0 batched_reporter (perf_report 1),
                                stamp page0 batched_reporter (perf_report 2)],
       IntervalElapsed page0]))) = [[1, 2], [1, 2]]"
    by code_simp+
  from fetch_failure_requeue [of immediate_reporter "''offline''"
         "[stamp page0 immediate_reporter (perf_report 1)]" "[]"] im qi
  have "queue (fst (fetch_catch ''offline'' [stamp page0 immediate_reporter (perf_report 1)]
                 (immediate_reporter, []))) = []"
    by simp
  with nb im v show ?thesis
    by simp
qed


end
